theory Spec2Isabelle
  imports Main "HOL-Library.Word" "HOL-Library.Monad_Syntax"
begin

section \<open>The Cycles render bridge of Goxel (src/cycles.cpp)\<close>

text \<open>
  The file \<^verbatim>\<open>cycles.cpp\<close> converts the voxel volume of the editor into a scene of
  the Cycles path tracer and keeps one progressive render session alive, rebuilding it
  when a render key changes.

  Conventions of the embedding.
  \<^item> A \<^verbatim>\<open>float\<close> is a value of a type \<open>'f\<close> of which only the constants and
    operations the source writes are used (\<open>0\<close>, \<open>1\<close>, unary minus, \<open>*\<close>); no law of
    arithmetic is assumed of them.
  \<^item> The functions, constants and types of \<^verbatim>\<open>goxel.h\<close> that this file calls but does
    not define (\<^verbatim>\<open>mesh_generate_vertices\<close>, \<^verbatim>\<open>mesh_iter\<close>, \<^verbatim>\<open>mesh_get_key\<close>,
    \<^verbatim>\<open>crc64\<close>, the \<^verbatim>\<open>mat4_*\<close> helpers, \<^verbatim>\<open>BLOCK_SIZE\<close>) are fields of a record
    \<open>goxel_api\<close> that every function of the model takes as its first argument.
  \<^item> A result of type \<open>'a option\<close> is \<open>None\<close> exactly where the C++ would have
    undefined behaviour: a dereference of the null session pointer, or a read past the
    end of the vertex buffer.
\<close>

subsection \<open>Data of the voxel editor\<close>

type_synonym byte = "8 word"
type_synonym block_pos = "int \<times> int \<times> int"
type_synonym uchar4 = "byte \<times> byte \<times> byte \<times> byte"
type_synonym 'f float3 = "'f \<times> 'f \<times> 'f"
type_synonym 'f vec4 = "'f \<times> 'f \<times> 'f \<times> 'f"
type_synonym 'f mat4 = "'f list list"

text \<open>\<^verbatim>\<open>voxel_vertex_t\<close>: the two members the source reads, \<^verbatim>\<open>pos[3]\<close> and \<^verbatim>\<open>color[4]\<close>.\<close>

record 'f voxel_vertex =
  pos :: "'f float3"
  color :: uchar4

text \<open>\<^verbatim>\<open>camera_t\<close>, \<^verbatim>\<open>renderer_t\<close> and the global \<^verbatim>\<open>goxel\<close>, with the members the source reads.\<close>

record 'f camera_t =
  ofs :: "'f float3"
  rot :: "'f vec4"
  dist :: 'f
  view_mat :: "'f mat4"
  proj_mat :: "'f mat4"

record 'f light_t =
  yaw :: 'f
  pitch :: 'f

record 'f renderer_t =
  light :: "'f light_t"

record ('m, 'f) goxel_t =
  render_mesh :: 'm
  camera :: "'f camera_t"
  rend :: "'f renderer_t"

text \<open>
  What \<^verbatim>\<open>goxel.h\<close> provides. \<open>mesh_generate_vertices\<close> takes the output buffer and returns
  the number of quads (a count, hence a natural number) together with the buffer as it
  left it; \<open>mesh_iter_blocks m\<close> is the
  sequence of block positions that the loop
  \<^verbatim>\<open>while (mesh_iter(&iter, block_pos))\<close> visits for an iterator obtained with
  \<^verbatim>\<open>MESH_ITER_BLOCKS | MESH_ITER_INCLUDES_NEIGHBORS\<close>; \<open>crc64 crc bytes\<close> is
  \<^verbatim>\<open>crc64(crc, s, l)\<close> on the \<open>l\<close> bytes at \<open>s\<close>; \<open>float_bytes\<close> is the object
  representation of a \<^verbatim>\<open>float\<close>.
\<close>

record ('m, 'f) goxel_api =
  BLOCK_SIZE :: nat
  mesh_generate_vertices ::
    "'m \<Rightarrow> block_pos \<Rightarrow> int \<Rightarrow> 'f voxel_vertex list \<Rightarrow> nat \<times> 'f voxel_vertex list"
  mesh_iter_blocks :: "'m \<Rightarrow> block_pos list"
  mesh_get_key :: "'m \<Rightarrow> 64 word"
  crc64 :: "64 word \<Rightarrow> byte list \<Rightarrow> 64 word"
  float_bytes :: "'f \<Rightarrow> byte list"
  mat4_set_identity :: "'f mat4"
  mat4_itranslate :: "'f mat4 \<Rightarrow> 'f \<Rightarrow> 'f \<Rightarrow> 'f \<Rightarrow> 'f mat4"
  mat4_imul_quat :: "'f mat4 \<Rightarrow> 'f vec4 \<Rightarrow> 'f mat4"
  mat4_iscale :: "'f mat4 \<Rightarrow> 'f \<Rightarrow> 'f \<Rightarrow> 'f \<Rightarrow> 'f mat4"
  mat4_transpose :: "'f mat4 \<Rightarrow> 'f mat4"
  mat4_irotate :: "'f mat4 \<Rightarrow> 'f \<Rightarrow> 'f \<Rightarrow> 'f \<Rightarrow> 'f \<Rightarrow> 'f mat4"
  mat4_mul_vec4 :: "'f mat4 \<Rightarrow> 'f vec4 \<Rightarrow> 'f vec4"
  vec3_mul :: "'f float3 \<Rightarrow> 'f \<Rightarrow> 'f float3"

subsection \<open>Data of the renderer\<close>

text \<open>
  A shader with its graph: the nodes (name, node type), the string-valued inputs set on
  them (node, input, value) and the links (from node and output, to node and input).
  The graph's own output node is called \<open>''output''\<close>. The two float-valued inputs of the
  emission node (strength and colour) are left out.
\<close>

record shader =
  shader_name :: string
  graph_nodes :: "(string \<times> string) list"
  graph_inputs :: "(string \<times> string \<times> string) list"
  graph_links :: "((string \<times> string) \<times> (string \<times> string)) list"

datatype subdivision = SUBDIVISION_NONE | SUBDIVISION_LINEAR | SUBDIVISION_CATMULL_CLARK

text \<open>
  \<^verbatim>\<open>ccl::Mesh\<close>: vertices, triangles (three vertex indices each, with the shader index
  and the smooth flag given to \<^verbatim>\<open>add_triangle\<close>), the attributes by name, and the
  shaders in use.
\<close>

record 'f ccl_mesh =
  subdivision_type :: subdivision
  verts :: "'f float3 list"
  triangles :: "(nat \<times> nat \<times> nat) list"
  triangle_shader :: "int list"
  triangle_smooth :: "bool list"
  attributes :: "(string \<times> uchar4 list) list"
  used_shaders :: "shader list"

definition new_Mesh :: "'f ccl_mesh" where
  "new_Mesh = \<lparr>subdivision_type = SUBDIVISION_NONE, verts = [], triangles = [],
     triangle_shader = [], triangle_smooth = [], attributes = [], used_shaders = []\<rparr>"

text \<open>\<^verbatim>\<open>reserve_mesh\<close> only reserves capacity: the sizes stay as they are.\<close>

definition reserve_mesh :: "'f ccl_mesh \<Rightarrow> nat \<Rightarrow> nat \<Rightarrow> 'f ccl_mesh" where
  "reserve_mesh ret numverts numtris = ret"

definition add_vertex :: "'f ccl_mesh \<Rightarrow> 'f float3 \<Rightarrow> 'f ccl_mesh" where
  "add_vertex ret P = ret\<lparr>verts := verts ret @ [P]\<rparr>"

definition add_triangle :: "'f ccl_mesh \<Rightarrow> nat \<Rightarrow> nat \<Rightarrow> nat \<Rightarrow> int \<Rightarrow> bool \<Rightarrow> 'f ccl_mesh" where
  "add_triangle ret v0 v1 v2 shader_idx smooth =
     ret\<lparr>triangles := triangles ret @ [(v0, v1, v2)],
         triangle_shader := triangle_shader ret @ [shader_idx],
         triangle_smooth := triangle_smooth ret @ [smooth]\<rparr>"

text \<open>
  \<^verbatim>\<open>attributes.add(name, TypeColor, ATTR_ELEMENT_CORNER_BYTE)\<close> allocates one
  \<^verbatim>\<open>uchar4\<close> for each triangle corner of the mesh as it is at the call
  (\<open>attribute_corner_data\<close>); the source then writes into that array through
  \<^verbatim>\<open>attr->data_uchar4()\<close>, and the mesh holds the array under the name
  (\<open>attributes_add\<close>).
\<close>

definition attribute_corner_data :: "'f ccl_mesh \<Rightarrow> uchar4 list" where
  "attribute_corner_data ret = replicate (3 * length (triangles ret)) (0, 0, 0, 0)"

definition attributes_add :: "'f ccl_mesh \<Rightarrow> string \<Rightarrow> uchar4 list \<Rightarrow> 'f ccl_mesh" where
  "attributes_add ret name d = ret\<lparr>attributes := attributes ret @ [(name, d)]\<rparr>"

definition make_float3 :: "'f \<Rightarrow> 'f \<Rightarrow> 'f \<Rightarrow> 'f float3" where
  "make_float3 x y z = (x, y, z)"

definition make_uchar4 :: "byte \<Rightarrow> byte \<Rightarrow> byte \<Rightarrow> byte \<Rightarrow> uchar4" where
  "make_uchar4 x y z w = (x, y, z, w)"

subsection \<open>The tessellator: \<^verbatim>\<open>create_mesh_for_block\<close>\<close>

text \<open>The buffer \<^verbatim>\<open>calloc(BLOCK_SIZE * BLOCK_SIZE * BLOCK_SIZE * 6 * 4, sizeof(*vertices))\<close>.\<close>

definition calloc_vertices :: "('m, 'f::zero) goxel_api \<Rightarrow> 'f voxel_vertex list" where
  "calloc_vertices api =
     replicate (BLOCK_SIZE api * BLOCK_SIZE api * BLOCK_SIZE api * 6 * 4)
       \<lparr>pos = (0, 0, 0), color = (0, 0, 0, 0)\<rparr>"

text \<open>The body of the loop over the quads (source lines 126 to 133), for the quad \<open>i\<close>.\<close>

definition add_quad :: "'f voxel_vertex list \<Rightarrow> nat \<Rightarrow> 'f ccl_mesh \<Rightarrow> 'f ccl_mesh" where
  "add_quad vertices i ret =
     (let ret = fold (\<lambda>j ret. add_vertex ret
                  (case pos (vertices ! (i * 4 + j)) of (p0, p1, p2) \<Rightarrow> make_float3 p0 p1 p2))
                [0..<4] ret;
          ret = add_triangle ret (i * 4 + 0) (i * 4 + 1) (i * 4 + 2) 0 False;
          ret = add_triangle ret (i * 4 + 2) (i * 4 + 3) (i * 4 + 0) 0 False
      in ret)"

text \<open>The body of the loop over the corners (source lines 140 to 145), for the corner \<open>i\<close>.\<close>

definition set_corner_color :: "'f voxel_vertex list \<Rightarrow> nat \<Rightarrow> uchar4 list \<Rightarrow> uchar4 list" where
  "set_corner_color vertices i d =
     d[i := (case color (vertices ! (i div 6 * 4)) of (c0, c1, c2, c3) \<Rightarrow> make_uchar4 c0 c1 c2 c3)]"

text \<open>
  \<^verbatim>\<open>create_mesh_for_block\<close>. With \<open>nb = 0\<close> the \<^verbatim>\<open>goto end\<close> returns the mesh as
  \<^verbatim>\<open>new ccl::Mesh()\<close> made it. The loops read \<open>vertices[0 .. 4 * nb - 1]\<close>; a buffer
  shorter than that is a read out of bounds.
\<close>

definition create_mesh_for_block ::
  "('m, 'f::zero) goxel_api \<Rightarrow> 'm \<Rightarrow> block_pos \<Rightarrow> 'f ccl_mesh option" where
  "create_mesh_for_block api mesh block_pos =
     (let ret = new_Mesh\<lparr>subdivision_type := SUBDIVISION_NONE\<rparr>;
          (nb, vertices) = mesh_generate_vertices api mesh block_pos 0 (calloc_vertices api)
      in if nb = 0 then Some ret
         else if length vertices < nb * 4 then None
         else
           let ret = reserve_mesh ret (nb * 4) (nb * 2);
               ret = fold (add_quad vertices) [0..<nb] ret;
               attr = attribute_corner_data ret;
               attr = fold (set_corner_color vertices) [0..<nb * 6] attr
           in Some (attributes_add ret ''Col'' attr))"

subsection \<open>The shading graphs\<close>

definition create_cube_shader :: shader where
  "create_cube_shader =
     \<lparr>shader_name = ''cubeShader'',
      graph_nodes = [(''colorNode'', ''attribute''), (''diffuseBSDFNode'', ''diffuse_bsdf'')],
      graph_inputs = [(''colorNode'', ''attribute'', ''Col'')],
      graph_links = [((''colorNode'', ''Color''), (''diffuseBSDFNode'', ''Color'')),
                     ((''diffuseBSDFNode'', ''BSDF''), (''output'', ''Surface''))]\<rparr>"

definition create_light_shader :: shader where
  "create_light_shader =
     \<lparr>shader_name = ''lightShader'',
      graph_nodes = [(''emissionNode'', ''emission'')],
      graph_inputs = [],
      graph_links = [((''emissionNode'', ''Emission''), (''output'', ''Surface''))]\<rparr>"

subsection \<open>The scene: \<^verbatim>\<open>create_scene\<close>\<close>

datatype device_type =
  DEVICE_NONE | DEVICE_CPU | DEVICE_OPENCL | DEVICE_CUDA | DEVICE_NETWORK | DEVICE_MULTI

record device_info =
  dev_type :: device_type
  dev_id :: string

datatype camera_type = CAMERA_PERSPECTIVE | CAMERA_ORTHOGRAPHIC | CAMERA_PANORAMA
datatype shading_system = SHADINGSYSTEM_OSL | SHADINGSYSTEM_SVM
datatype light_type = LIGHT_POINT | LIGHT_DISTANT | LIGHT_BACKGROUND | LIGHT_AREA | LIGHT_SPOT

text \<open>
  The camera, objects, lights and scene of the renderer, with the members that
  \<^verbatim>\<open>create_scene\<close> writes. The members it sets to floating-point constants
  (\<^verbatim>\<open>fov\<close>, \<^verbatim>\<open>film->exposure\<close>, \<^verbatim>\<open>light->size\<close>) and the viewplane that
  \<^verbatim>\<open>compute_auto_viewplane\<close> derives are left out. The transform of an object,
  \<^verbatim>\<open>transform_identity() * transform_translate(block_pos)\<close>, is kept as the translation
  vector.
\<close>

record 'f ccl_camera =
  cam_width :: int
  cam_height :: int
  cam_type :: camera_type
  cam_full_width :: int
  cam_full_height :: int
  cam_matrix :: "'f mat4"
  need_update :: bool
  need_device_update :: bool

record 'f ccl_object =
  object_name :: string
  object_mesh :: "'f ccl_mesh"
  tfm_translate :: block_pos

record 'f ccl_light =
  lgt_type :: light_type
  lgt_dir :: "'f float3"
  lgt_shader :: shader

record 'f ccl_scene =
  shadingsystem :: shading_system
  scene_device :: device_info
  scene_camera :: "'f ccl_camera"
  shaders :: "shader list"
  meshes :: "'f ccl_mesh list"
  objects :: "'f ccl_object list"
  lights :: "'f ccl_light list"

text \<open>\<^verbatim>\<open>get_light_dir\<close>.\<close>

definition get_light_dir ::
  "('m, 'f::{zero,one,uminus}) goxel_api \<Rightarrow> ('m, 'f) goxel_t \<Rightarrow> 'f float3" where
  "get_light_dir api goxel =
     (let m = mat4_set_identity api;
          m = mat4_irotate api m (yaw (light (rend goxel))) 0 0 1;
          m = mat4_irotate api m (pitch (light (rend goxel))) 1 0 0;
          (l0, l1, l2, l3) = mat4_mul_vec4 api m (0, 0, 1, 0)
      in vec3_mul api (l0, l1, l2) (- 1))"

text \<open>
  The camera matrix (source lines 188 to 201): \<^verbatim>\<open>mat\<close> is updated in place by each
  helper, \<^verbatim>\<open>rot\<close> is a copy of the camera's quaternion whose component 0 is multiplied
  by \<open>-1\<close>.
\<close>

definition camera_matrix ::
  "('m, 'f::{zero,one,uminus,times}) goxel_api \<Rightarrow> ('m, 'f) goxel_t \<Rightarrow> 'f mat4" where
  "camera_matrix api goxel =
     (let mat = mat4_set_identity api;
          (o0, o1, o2) = ofs (camera goxel);
          mat = mat4_itranslate api mat (- o0) (- o1) (- o2);
          (r0, r1, r2, r3) = rot (camera goxel);
          r0 = r0 * (- 1);
          mat = mat4_imul_quat api mat (r0, r1, r2, r3);
          mat = mat4_itranslate api mat 0 0 (dist (camera goxel));
          mat = mat4_iscale api mat 1 1 (- 1);
          mat = mat4_transpose api mat
      in mat)"

text \<open>
  The loop over the blocks (source lines 209 to 220). Nothing in it looks at the mesh
  that \<^verbatim>\<open>create_mesh_for_block\<close> returned: every block visited gets a mesh and an
  object.
\<close>

fun add_blocks ::
  "('m, 'f::zero) goxel_api \<Rightarrow> 'm \<Rightarrow> shader \<Rightarrow> block_pos list \<Rightarrow> 'f ccl_scene \<Rightarrow> 'f ccl_scene option"
  where
  "add_blocks api gmesh object_shader [] scene = Some scene"
| "add_blocks api gmesh object_shader (block_pos # rest) scene =
     (case create_mesh_for_block api gmesh block_pos of
        None \<Rightarrow> None
      | Some mesh \<Rightarrow>
          let mesh = mesh\<lparr>used_shaders := used_shaders mesh @ [object_shader]\<rparr>;
              scene = scene\<lparr>meshes := meshes scene @ [mesh]\<rparr>;
              object = \<lparr>object_name = ''mesh'', object_mesh = mesh, tfm_translate = block_pos\<rparr>;
              scene = scene\<lparr>objects := objects scene @ [object]\<rparr>
          in add_blocks api gmesh object_shader rest scene)"

subsection \<open>The session and the globals of the file\<close>

record buffer_params =
  width :: int
  height :: int
  full_width :: int
  full_height :: int

record session_params =
  progressive :: bool
  start_resolution :: int
  device :: device_info
  samples :: int

text \<open>
  \<^verbatim>\<open>ccl::Session\<close> as the file sees it: the parameters it was constructed with, the
  device made from them, the scene assigned to it, the arguments of the last
  \<^verbatim>\<open>reset\<close> and whether \<^verbatim>\<open>start\<close> was called. A session is an object on the heap:
  \<open>session_id\<close> is its identity, the number of sessions constructed before it.
\<close>

record 'f session =
  session_id :: nat
  params :: session_params
  session_device :: device_info
  scene :: "'f ccl_scene option"
  reset_with :: "(buffer_params \<times> int) option"
  started :: bool

text \<open>
  The calls that leave the file, in the order in which they are made: the OpenGL calls
  of \<^verbatim>\<open>cycles_render\<close> and the operations on sessions.
\<close>

datatype gl_matrix_mode = GL_PROJECTION | GL_MODELVIEW

datatype gl_call =
  GlViewport int int int int
| GlMatrixMode gl_matrix_mode
| GlLoadIdentity
| GlOrtho int int int int int int
| GlUseProgram int

datatype event =
  EvGL gl_call
| EvSessionDelete nat
| EvSessionNew nat session_params
| EvCreateScene int int
| EvSessionReset nat buffer_params int
| EvSessionStart nat
| EvSessionDraw nat buffer_params
| EvGetStatus nat

text \<open>
  The mutable state: the three globals \<^verbatim>\<open>g_session\<close>, \<^verbatim>\<open>g_buffer_params\<close> and
  \<^verbatim>\<open>g_session_params\<close>, the function-local static \<^verbatim>\<open>last_key\<close> of
  \<^verbatim>\<open>cycles_render\<close>, the number of sessions constructed so far, and the calls made so
  far. (The other static of \<^verbatim>\<open>cycles_render\<close>, \<^verbatim>\<open>draw_params\<close>, is never written.)
\<close>

record 'f globals =
  g_session :: "'f session option"
  g_buffer_params :: buffer_params
  g_session_params :: session_params
  last_key :: "64 word"
  sessions_made :: nat
  trace :: "event list"

text \<open>
  The state when the program starts: \<^verbatim>\<open>g_session = NULL\<close>, \<^verbatim>\<open>last_key = 0\<close>, and the
  two parameter objects as the renderer's default constructors leave them.
\<close>

definition initial_globals :: "buffer_params \<Rightarrow> session_params \<Rightarrow> 'f globals" where
  "initial_globals bp0 sp0 =
     \<lparr>g_session = None, g_buffer_params = bp0, g_session_params = sp0, last_key = 0,
      sessions_made = 0, trace = []\<rparr>"

definition emit :: "event list \<Rightarrow> 'f globals \<Rightarrow> 'f globals" where
  "emit evs s = s\<lparr>trace := trace s @ evs\<rparr>"

text \<open>\<^verbatim>\<open>g_session = new ccl::Session(params)\<close> and \<^verbatim>\<open>delete g_session\<close>.\<close>

definition new_Session :: "session_params \<Rightarrow> 'f globals \<Rightarrow> 'f globals" where
  "new_Session p s =
     emit [EvSessionNew (sessions_made s) p]
       (s\<lparr>g_session := Some \<lparr>session_id = sessions_made s, params = p, session_device = device p,
                               scene = None, reset_with = None, started = False\<rparr>,
          sessions_made := Suc (sessions_made s)\<rparr>)"

definition delete_session :: "'f globals \<Rightarrow> 'f globals option" where
  "delete_session s =
     (case g_session s of
        None \<Rightarrow> None
      | Some ss \<Rightarrow> Some (emit [EvSessionDelete (session_id ss)] (s\<lparr>g_session := None\<rparr>)))"

text \<open>
  The member accesses \<^verbatim>\<open>g_session->...\<close>: each is \<open>None\<close> when \<^verbatim>\<open>g_session\<close> is null.
\<close>

definition set_scene :: "'f ccl_scene \<Rightarrow> 'f globals \<Rightarrow> 'f globals option" where
  "set_scene sc s =
     (case g_session s of
        None \<Rightarrow> None
      | Some ss \<Rightarrow> Some (s\<lparr>g_session := Some (ss\<lparr>scene := Some sc\<rparr>)\<rparr>))"

definition session_reset :: "buffer_params \<Rightarrow> int \<Rightarrow> 'f globals \<Rightarrow> 'f globals option" where
  "session_reset bp n s =
     (case g_session s of
        None \<Rightarrow> None
      | Some ss \<Rightarrow>
          Some (emit [EvSessionReset (session_id ss) bp n]
                  (s\<lparr>g_session := Some (ss\<lparr>reset_with := Some (bp, n)\<rparr>)\<rparr>)))"

definition session_start :: "'f globals \<Rightarrow> 'f globals option" where
  "session_start s =
     (case g_session s of
        None \<Rightarrow> None
      | Some ss \<Rightarrow>
          Some (emit [EvSessionStart (session_id ss)] (s\<lparr>g_session := Some (ss\<lparr>started := True\<rparr>)\<rparr>)))"

definition session_draw :: "buffer_params \<Rightarrow> 'f globals \<Rightarrow> 'f globals option" where
  "session_draw bp s =
     (case g_session s of
        None \<Rightarrow> None
      | Some ss \<Rightarrow> Some (emit [EvSessionDraw (session_id ss) bp] s))"

definition session_get_status :: "'f globals \<Rightarrow> 'f globals option" where
  "session_get_status s =
     (case g_session s of
        None \<Rightarrow> None
      | Some ss \<Rightarrow> Some (emit [EvGetStatus (session_id ss)] s))"

text \<open>
  \<^verbatim>\<open>create_scene\<close>. It reads \<^verbatim>\<open>g_session->device\<close> for the constructor of the scene.
  The camera is written down with the values the function has given its members when it
  returns: the two update flags, which the last lines of the function set, are not read
  in between.
\<close>

definition create_scene ::
  "('m, 'f::{zero,one,uminus,times}) goxel_api \<Rightarrow> ('m, 'f) goxel_t \<Rightarrow> 'f globals \<Rightarrow> int \<Rightarrow> int
     \<Rightarrow> 'f ccl_scene option" where
  "create_scene api goxel s w h =
     (case g_session s of
        None \<Rightarrow> None
      | Some ss \<Rightarrow>
          let gmesh = render_mesh goxel;
              cam = \<lparr>cam_width = w, cam_height = h, cam_type = CAMERA_PERSPECTIVE,
                     cam_full_width = w, cam_full_height = h,
                     cam_matrix = camera_matrix api goxel,
                     need_update = True, need_device_update = True\<rparr>;
              scene = \<lparr>shadingsystem = SHADINGSYSTEM_OSL, scene_device = session_device ss,
                       scene_camera = cam, shaders = [], meshes = [], objects = [], lights = []\<rparr>;
              object_shader = create_cube_shader;
              scene = scene\<lparr>shaders := shaders scene @ [object_shader]\<rparr>
          in case add_blocks api gmesh object_shader (mesh_iter_blocks api gmesh) scene of
               None \<Rightarrow> None
             | Some scene \<Rightarrow>
                 let light_shader = create_light_shader;
                     scene = scene\<lparr>shaders := shaders scene @ [light_shader]\<rparr>;
                     lgt = \<lparr>lgt_type = LIGHT_DISTANT, lgt_dir = get_light_dir api goxel,
                            lgt_shader = light_shader\<rparr>;
                     scene = scene\<lparr>lights := lights scene @ [lgt]\<rparr>
                 in Some scene)"

subsection \<open>\<^verbatim>\<open>cycles_init\<close>\<close>

text \<open>\<^verbatim>\<open>ccl::Device::type_from_string\<close>.\<close>

definition type_from_string :: "string \<Rightarrow> device_type" where
  "type_from_string name =
     (if name = ''CPU'' then DEVICE_CPU
      else if name = ''CUDA'' then DEVICE_CUDA
      else if name = ''OPENCL'' then DEVICE_OPENCL
      else if name = ''NETWORK'' then DEVICE_NETWORK
      else if name = ''MULTI'' then DEVICE_MULTI
      else DEVICE_NONE)"

text \<open>
  The loop over the devices (source lines 254 to 259): \<open>device_info\<close> keeps the value it
  had before the loop unless a device of the type is met, and the first one met ends
  the loop.
\<close>

fun select_device :: "device_type \<Rightarrow> device_info list \<Rightarrow> device_info \<Rightarrow> device_info" where
  "select_device device_type [] device_info = device_info"
| "select_device device_type (d # devices) device_info =
     (if device_type = dev_type d then d else select_device device_type devices device_info)"

text \<open>
  \<^verbatim>\<open>cycles_init\<close>. \<open>devices\<close> is what \<^verbatim>\<open>ccl::Device::available_devices()\<close> returns and
  \<open>default_info\<close> the default-constructed \<^verbatim>\<open>ccl::DeviceInfo\<close>. The function is
  \<^verbatim>\<open>void\<close>, and has no \<^verbatim>\<open>return\<close>, \<^verbatim>\<open>throw\<close>, \<^verbatim>\<open>assert\<close> or \<^verbatim>\<open>exit\<close>: it
  returns the state and nothing else.
\<close>

definition cycles_init :: "device_info list \<Rightarrow> device_info \<Rightarrow> 'f globals \<Rightarrow> 'f globals" where
  "cycles_init devices default_info s =
     (let device_type = type_from_string ''CPU'';
          device_info = select_device device_type devices default_info
      in s\<lparr>g_session_params := (g_session_params s)
            \<lparr>progressive := True, start_resolution := 64, device := device_info, samples := 20\<rparr>\<rparr>)"

subsection \<open>The render key: \<^verbatim>\<open>get_render_key\<close>\<close>

text \<open>
  The bytes that \<^verbatim>\<open>(uint8_t*)mat\<close> and \<^verbatim>\<open>sizeof(mat)\<close> denote for a
  \<^verbatim>\<open>float mat[4][4]\<close>: the floats row after row.
\<close>

definition mat_bytes :: "('m, 'f) goxel_api \<Rightarrow> 'f mat4 \<Rightarrow> byte list" where
  "mat_bytes api mat = concat (map (float_bytes api) (concat mat))"

definition get_render_key :: "('m, 'f) goxel_api \<Rightarrow> ('m, 'f) goxel_t \<Rightarrow> 64 word" where
  "get_render_key api goxel =
     (let key = mesh_get_key api (render_mesh goxel);
          key = crc64 api key (mat_bytes api (view_mat (camera goxel)));
          key = crc64 api key (mat_bytes api (proj_mat (camera goxel)))
      in key)"

subsection \<open>The frame: \<^verbatim>\<open>cycles_render\<close>\<close>

type_synonym rect = "int \<times> int \<times> int \<times> int"

text \<open>The OpenGL calls of source lines 294 to 301.\<close>

definition gl_setup :: "rect \<Rightarrow> buffer_params \<Rightarrow> event list" where
  "gl_setup r bp =
     (case r of (r0, r1, r2, r3) \<Rightarrow>
        map EvGL [GlViewport r0 r1 r2 r3, GlMatrixMode GL_PROJECTION, GlLoadIdentity,
                  GlOrtho 0 (width bp) 0 (height bp) (- 1) 1,
                  GlMatrixMode GL_MODELVIEW, GlLoadIdentity, GlUseProgram 0])"

text \<open>The body of \<^verbatim>\<open>if (key != last_key)\<close> (source lines 305 to 310).\<close>

definition rebuild ::
  "('m, 'f::{zero,one,uminus,times}) goxel_api \<Rightarrow> ('m, 'f) goxel_t \<Rightarrow> 64 word \<Rightarrow> int \<Rightarrow> int
     \<Rightarrow> 'f globals \<Rightarrow> 'f globals option" where
  "rebuild api goxel key w h s =
     do {
       let s = s\<lparr>last_key := key\<rparr>;
       s \<leftarrow> (if g_session s \<noteq> None then delete_session s else Some s);
       let s = new_Session (g_session_params s) s;
       sc \<leftarrow> create_scene api goxel s w h;
       let s = emit [EvCreateScene w h] s;
       s \<leftarrow> set_scene sc s;
       s \<leftarrow> session_reset (g_buffer_params s) (samples (g_session_params s)) s;
       session_start s
     }"

definition cycles_render ::
  "('m, 'f::{zero,one,uminus,times}) goxel_api \<Rightarrow> ('m, 'f) goxel_t \<Rightarrow> rect
     \<Rightarrow> 'f globals \<Rightarrow> 'f globals option" where
  "cycles_render api goxel r s =
     (case r of (r0, r1, w, h) \<Rightarrow>
        do {
          let s = s\<lparr>g_buffer_params := (g_buffer_params s)
                     \<lparr>width := w, height := h, full_width := w, full_height := h\<rparr>\<rparr>;
          let s = emit (gl_setup r (g_buffer_params s)) s;
          let key = get_render_key api goxel;
          s \<leftarrow> (if key \<noteq> last_key s then rebuild api goxel key w h s else Some s);
          if g_session s = None then Some s
          else do {
            s \<leftarrow> session_draw (g_buffer_params s) s;
            session_get_status s
          }
        })"

text \<open>
  The program: \<^verbatim>\<open>cycles_init\<close> once, then \<^verbatim>\<open>cycles_render\<close> once per frame, each frame
  with the editor state and the viewport of its moment.
\<close>

fun render_frames ::
  "('m, 'f::{zero,one,uminus,times}) goxel_api \<Rightarrow> (('m, 'f) goxel_t \<times> rect) list
     \<Rightarrow> 'f globals \<Rightarrow> 'f globals option" where
  "render_frames api [] s = Some s"
| "render_frames api ((goxel, r) # frames) s =
     (case cycles_render api goxel r s of
        None \<Rightarrow> None
      | Some s \<Rightarrow> render_frames api frames s)"

subsection \<open>Closed forms used in the statements\<close>

text \<open>The two triangles of the quad \<open>i\<close>, as \<^verbatim>\<open>add_triangle\<close> receives them.\<close>

definition quad_triangles :: "nat \<Rightarrow> (nat \<times> nat \<times> nat) list" where
  "quad_triangles i = [(i * 4, i * 4 + 1, i * 4 + 2), (i * 4 + 2, i * 4 + 3, i * 4)]"

text \<open>
  The contract of \<^verbatim>\<open>mesh_generate_vertices\<close> that the loops of
  \<^verbatim>\<open>create_mesh_for_block\<close> rely on: the buffer holds the four vertices of every quad
  the call announces.
\<close>

definition buffer_ok :: "('m, 'f::zero) goxel_api \<Rightarrow> 'm \<Rightarrow> block_pos \<Rightarrow> bool" where
  "buffer_ok api mesh block_pos =
     (case mesh_generate_vertices api mesh block_pos 0 (calloc_vertices api) of
        (nb, vertices) \<Rightarrow> nb * 4 \<le> length vertices)"

text \<open>
  The object that one turn of the loop of \<^verbatim>\<open>create_scene\<close> appends for a block: the
  mesh of the block with the object shader added, named \<open>''mesh''\<close> and placed at the
  block.
\<close>

definition block_object ::
  "('m, 'f::zero) goxel_api \<Rightarrow> 'm \<Rightarrow> shader \<Rightarrow> block_pos \<Rightarrow> 'f ccl_object option" where
  "block_object api gmesh object_shader block_pos =
     map_option
       (\<lambda>mesh. \<lparr>object_name = ''mesh'',
                 object_mesh = mesh\<lparr>used_shaders := used_shaders mesh @ [object_shader]\<rparr>,
                 tfm_translate = block_pos\<rparr>)
       (create_mesh_for_block api gmesh block_pos)"

text \<open>
  The camera matrix in the words of the specification: the transpose of the result of
  applying to the identity, in this order, a translation by the negated offset, the
  rotation whose first component is multiplied by \<open>-1\<close>, a translation by the distance
  along z, and the scale (1, 1, -1).
\<close>

definition camera_matrix_spec ::
  "('m, 'f::{zero,one,uminus,times}) goxel_api \<Rightarrow> 'f float3 \<Rightarrow> 'f vec4 \<Rightarrow> 'f \<Rightarrow> 'f mat4" where
  "camera_matrix_spec api offset rotation distance =
     (case (offset, rotation) of ((o0, o1, o2), (r0, r1, r2, r3)) \<Rightarrow>
        mat4_transpose api
          (foldl (\<lambda>m step. step m) (mat4_set_identity api)
             [\<lambda>m. mat4_itranslate api m (- o0) (- o1) (- o2),
              \<lambda>m. mat4_imul_quat api m (r0 * (- 1), r1, r2, r3),
              \<lambda>m. mat4_itranslate api m 0 0 distance,
              \<lambda>m. mat4_iscale api m 1 1 (- 1)]))"

text \<open>
  The render key in the words of the specification: a running checksum seeded with the
  content hash of the volume and fed the bytes of the view matrix, then those of the
  projection matrix.
\<close>

definition render_key_spec ::
  "('m, 'f) goxel_api \<Rightarrow> 64 word \<Rightarrow> byte list \<Rightarrow> byte list \<Rightarrow> 64 word" where
  "render_key_spec api content_hash view_bytes proj_bytes =
     foldl (crc64 api) content_hash [view_bytes, proj_bytes]"

text \<open>
  The buffer parameters after \<^verbatim>\<open>cycles_render\<close> has written the viewport into them, and
  the calls that the last lines of \<^verbatim>\<open>cycles_render\<close> make on a session, and that
  \<^verbatim>\<open>if (g_session) delete g_session\<close> makes.
\<close>

definition viewport_buffer :: "int \<Rightarrow> int \<Rightarrow> buffer_params" where
  "viewport_buffer w h = \<lparr>width = w, height = h, full_width = w, full_height = h\<rparr>"

definition draw_events :: "'f session option \<Rightarrow> buffer_params \<Rightarrow> event list" where
  "draw_events sess bp =
     (case sess of
        None \<Rightarrow> []
      | Some ss \<Rightarrow> [EvSessionDraw (session_id ss) bp, EvGetStatus (session_id ss)])"

definition delete_events :: "'f session option \<Rightarrow> event list" where
  "delete_events sess = (case sess of None \<Rightarrow> [] | Some ss \<Rightarrow> [EvSessionDelete (session_id ss)])"

subsection \<open>An instance of the interface\<close>

text \<open>
  A small instance of \<open>goxel_api\<close> on which the model runs: floats are integers, a
  volume lists its blocks with the vertices of their visible quads and carries its
  content hash, a block is one voxel (\<open>BLOCK_SIZE = 1\<close>, so the vertex buffer holds the
  24 vertices of a cube), the checksum adds the bytes to the running value, and
  matrices are multiplied as 4 by 4 integer matrices (a rotation by an angle is the
  identity, as for the angle 0).
\<close>

record toy_mesh =
  tm_blocks :: "(block_pos \<times> int voxel_vertex list) list"
  tm_key :: "64 word"

definition toy_generate_vertices ::
  "toy_mesh \<Rightarrow> block_pos \<Rightarrow> int \<Rightarrow> int voxel_vertex list \<Rightarrow> nat \<times> int voxel_vertex list" where
  "toy_generate_vertices m bp effects out =
     (case map_of (tm_blocks m) bp of
        None \<Rightarrow> (0, out)
      | Some vs \<Rightarrow> (length vs div 4, vs @ drop (length vs) out))"

definition toy_crc64 :: "64 word \<Rightarrow> byte list \<Rightarrow> 64 word" where
  "toy_crc64 crc bytes = fold (\<lambda>b c. c + ucast b) bytes crc"

definition toy_float_bytes :: "int \<Rightarrow> byte list" where
  "toy_float_bytes x =
     [word_of_int x, word_of_int (x div 256), word_of_int (x div 65536), word_of_int (x div 16777216)]"

definition toy_identity :: "int mat4" where
  "toy_identity = [[1, 0, 0, 0], [0, 1, 0, 0], [0, 0, 1, 0], [0, 0, 0, 1]]"

definition toy_mat_mul :: "int mat4 \<Rightarrow> int mat4 \<Rightarrow> int mat4" where
  "toy_mat_mul a b =
     map (\<lambda>i. map (\<lambda>j. sum_list (map (\<lambda>k. a ! k ! j * b ! i ! k) [0..<4])) [0..<4]) [0..<4]"

definition toy_itranslate :: "int mat4 \<Rightarrow> int \<Rightarrow> int \<Rightarrow> int \<Rightarrow> int mat4" where
  "toy_itranslate m x y z =
     toy_mat_mul m [[1, 0, 0, 0], [0, 1, 0, 0], [0, 0, 1, 0], [x, y, z, 1]]"

definition toy_iscale :: "int mat4 \<Rightarrow> int \<Rightarrow> int \<Rightarrow> int \<Rightarrow> int mat4" where
  "toy_iscale m x y z =
     toy_mat_mul m [[x, 0, 0, 0], [0, y, 0, 0], [0, 0, z, 0], [0, 0, 0, 1]]"

definition toy_imul_quat :: "int mat4 \<Rightarrow> int vec4 \<Rightarrow> int mat4" where
  "toy_imul_quat m q =
     (case q of (w, x, y, z) \<Rightarrow>
        toy_mat_mul m
          [[1 - 2 * (y * y + z * z), 2 * (x * y + z * w), 2 * (x * z - y * w), 0],
           [2 * (x * y - z * w), 1 - 2 * (x * x + z * z), 2 * (y * z + x * w), 0],
           [2 * (x * z + y * w), 2 * (y * z - x * w), 1 - 2 * (x * x + y * y), 0],
           [0, 0, 0, 1]])"

definition toy_mul_vec4 :: "int mat4 \<Rightarrow> int vec4 \<Rightarrow> int vec4" where
  "toy_mul_vec4 m v =
     (case v of (v0, v1, v2, v3) \<Rightarrow>
        (let c = (\<lambda>j. m ! 0 ! j * v0 + m ! 1 ! j * v1 + m ! 2 ! j * v2 + m ! 3 ! j * v3)
         in (c 0, c 1, c 2, c 3)))"

definition toy_api :: "(toy_mesh, int) goxel_api" where
  "toy_api =
     \<lparr>BLOCK_SIZE = 1,
      mesh_generate_vertices = toy_generate_vertices,
      mesh_iter_blocks = (\<lambda>m. map fst (tm_blocks m)),
      mesh_get_key = tm_key,
      crc64 = toy_crc64,
      float_bytes = toy_float_bytes,
      mat4_set_identity = toy_identity,
      mat4_itranslate = toy_itranslate,
      mat4_imul_quat = toy_imul_quat,
      mat4_iscale = toy_iscale,
      mat4_transpose = transpose,
      mat4_irotate = (\<lambda>m a x y z. m),
      mat4_mul_vec4 = toy_mul_vec4,
      vec3_mul = (\<lambda>(x, y, z) k. (x * k, y * k, z * k))\<rparr>"

text \<open>
  A volume of two blocks: the block at the origin shows one red quad, its neighbour at
  (1, 0, 0) is visited by the iterator and has no visible face. The editor state around
  it, with the view matrix left open; the devices; and the state of the program before
  and after \<^verbatim>\<open>cycles_init\<close> on a machine with a CUDA and a CPU device.
\<close>

definition toy_quad :: "int voxel_vertex list" where
  "toy_quad =
     [\<lparr>pos = (0, 0, 1), color = (255, 0, 0, 255)\<rparr>,
      \<lparr>pos = (1, 0, 1), color = (255, 0, 0, 255)\<rparr>,
      \<lparr>pos = (1, 1, 1), color = (255, 0, 0, 255)\<rparr>,
      \<lparr>pos = (0, 1, 1), color = (255, 0, 0, 255)\<rparr>]"

definition toy_volume :: toy_mesh where
  "toy_volume = \<lparr>tm_blocks = [((0, 0, 0), toy_quad), ((1, 0, 0), [])], tm_key = 7\<rparr>"

definition toy_editor :: "toy_mesh \<Rightarrow> int mat4 \<Rightarrow> (toy_mesh, int) goxel_t" where
  "toy_editor m view =
     \<lparr>render_mesh = m,
      camera = \<lparr>ofs = (1, 2, 3), rot = (1, 0, 0, 0), dist = 10,
                view_mat = view, proj_mat = toy_identity\<rparr>,
      rend = \<lparr>light = \<lparr>yaw = 0, pitch = 0\<rparr>\<rparr>\<rparr>"

definition toy_default_device :: device_info where
  "toy_default_device = \<lparr>dev_type = DEVICE_NONE, dev_id = ''''\<rparr>"

definition toy_cpu :: device_info where
  "toy_cpu = \<lparr>dev_type = DEVICE_CPU, dev_id = ''CPU''\<rparr>"

definition toy_cuda :: device_info where
  "toy_cuda = \<lparr>dev_type = DEVICE_CUDA, dev_id = ''CUDA_0''\<rparr>"

definition toy_start :: "int globals" where
  "toy_start =
     initial_globals \<lparr>width = 0, height = 0, full_width = 0, full_height = 0\<rparr>
       \<lparr>progressive = False, start_resolution = 0, device = toy_default_device, samples = 0\<rparr>"

definition toy_ready :: "int globals" where
  "toy_ready = cycles_init [toy_cuda, toy_cpu] toy_default_device toy_start"

section \<open>Properties\<close>

subsection \<open>The mesh of a block\<close>

lemma verts_add_quad:
  "verts (add_quad vs i ret) = verts ret @ map (\<lambda>k. pos (vs ! k)) [i * 4..<i * 4 + 4]"
proof -
  have "[i * 4..<i * 4 + 4] = [i * 4, i * 4 + 1, i * 4 + 2, i * 4 + 3]"
    by (simp add: upt_rec)
  moreover have "[0..<4] = [0, 1, 2, Suc 2]"
    by (simp add: upt_rec)
  ultimately show ?thesis
    by (simp add: add_quad_def add_vertex_def add_triangle_def make_float3_def Let_def
        split: prod.splits)
qed

lemma triangles_add_quad:
  "triangles (add_quad vs i ret) =
     triangles ret @ [(i * 4, i * 4 + 1, i * 4 + 2), (i * 4 + 2, i * 4 + 3, i * 4)]"
proof -
  have "triangles (fold (\<lambda>j r. add_vertex r (f j)) js r0) = triangles r0" for f :: "nat \<Rightarrow> 'a float3" and js r0
    by (induction js arbitrary: r0) (simp_all add: add_vertex_def)
  then show ?thesis
    by (simp add: add_quad_def add_triangle_def Let_def)
qed

lemma attributes_add_quad: "attributes (add_quad vs i ret) = attributes ret"
proof -
  have "attributes (fold (\<lambda>j r. add_vertex r (f j)) js r0) = attributes r0" for f :: "nat \<Rightarrow> 'a float3" and js r0
    by (induction js arbitrary: r0) (simp_all add: add_vertex_def)
  then show ?thesis
    by (simp add: add_quad_def add_triangle_def Let_def)
qed

lemma upt_quad: "[0..<Suc n * 4] = [0..<n * 4] @ [n * 4..<n * 4 + 4]"
proof -
  have "Suc n * 4 = n * 4 + 4" by simp
  then show ?thesis
    using upt_add_eq_append [of 0 "n * 4" 4] by (simp only: le0)
qed

lemma verts_fold_add_quad:
  "verts (fold (add_quad vs) [0..<n] ret) = verts ret @ map (\<lambda>k. pos (vs ! k)) [0..<n * 4]"
proof (induction n)
  case 0
  show ?case by simp
next
  case (Suc n)
  show ?case
    unfolding upt_quad by (simp add: Suc verts_add_quad)
qed

lemma triangles_fold_add_quad:
  "triangles (fold (add_quad vs) [0..<n] ret) = triangles ret @ concat (map quad_triangles [0..<n])"
  by (induction n) (simp_all add: triangles_add_quad quad_triangles_def)

lemma attributes_fold_add_quad:
  "attributes (fold (add_quad vs) [0..<n] ret) = attributes ret"
  by (induction n) (simp_all add: attributes_add_quad)

lemma length_quad_triangles: "length (concat (map quad_triangles [0..<n])) = 2 * n"
  by (induction n) (simp_all add: quad_triangles_def)

lemma nth_quad_triangles:
  "i < n \<Longrightarrow> concat (map quad_triangles [0..<n]) ! (2 * i) = (i * 4, i * 4 + 1, i * 4 + 2)
     \<and> concat (map quad_triangles [0..<n]) ! (2 * i + 1) = (i * 4 + 2, i * 4 + 3, i * 4)"
proof (induction n)
  case 0
  then show ?case by simp
next
  case (Suc n)
  show ?case
  proof (cases "i < n")
    case True
    with Suc.IH show ?thesis
      by (simp add: nth_append length_quad_triangles)
  next
    case False
    with Suc.prems have "i = n" by simp
    moreover have "quad_triangles n ! 0 = (n * 4, n * 4 + 1, n * 4 + 2)"
      and "quad_triangles n ! 1 = (n * 4 + 2, n * 4 + 3, n * 4)"
      by (simp_all add: quad_triangles_def)
    ultimately show ?thesis
      by (simp add: nth_append length_quad_triangles)
  qed
qed

lemma length_set_corner_color: "length (set_corner_color vs i d) = length d"
  by (simp add: set_corner_color_def)

lemma nth_set_corner_color:
  "k < length d \<Longrightarrow>
     set_corner_color vs i d ! k = (if k = i then color (vs ! (i div 6 * 4)) else d ! k)"
  by (simp add: set_corner_color_def make_uchar4_def split: prod.splits)

lemma length_fold_set_corner_color:
  "length (fold (set_corner_color vs) ks d) = length d"
  by (induction ks arbitrary: d) (simp_all add: length_set_corner_color)

lemma nth_fold_set_corner_color:
  "k < length d \<Longrightarrow> k < n \<Longrightarrow>
     fold (set_corner_color vs) [0..<n] d ! k = color (vs ! (k div 6 * 4))"
proof (induction n)
  case 0
  then show ?case by simp
next
  case (Suc n)
  show ?case
  proof (cases "k < n")
    case True
    with Suc show ?thesis
      by (simp add: nth_set_corner_color length_fold_set_corner_color)
  next
    case False
    with Suc.prems have "k = n" by simp
    with Suc.prems show ?thesis
      by (simp add: nth_set_corner_color length_fold_set_corner_color)
  qed
qed

lemma create_mesh_for_block_unfold:
  assumes gen: "mesh_generate_vertices api mesh block_pos 0 (calloc_vertices api) = (nb, vertices)"
    and nb: "0 < nb" and buf: "nb * 4 \<le> length vertices"
  shows "create_mesh_for_block api mesh block_pos =
     Some (attributes_add (fold (add_quad vertices) [0..<nb] new_Mesh) ''Col''
       (fold (set_corner_color vertices) [0..<nb * 6]
          (attribute_corner_data (fold (add_quad vertices) [0..<nb] new_Mesh))))"
  using nb buf
  by (simp add: create_mesh_for_block_def gen reserve_mesh_def new_Mesh_def Let_def)

lemma create_mesh_for_block_empty:
  "fst (mesh_generate_vertices api mesh block_pos 0 (calloc_vertices api)) = 0 \<Longrightarrow>
     create_mesh_for_block api mesh block_pos = Some new_Mesh"
  by (cases "mesh_generate_vertices api mesh block_pos 0 (calloc_vertices api)")
    (simp add: create_mesh_for_block_def new_Mesh_def)

lemma create_mesh_for_block_Some:
  "buffer_ok api mesh block_pos \<Longrightarrow> \<exists>m. create_mesh_for_block api mesh block_pos = Some m"
  by (auto simp: create_mesh_for_block_def buffer_ok_def Let_def split: prod.splits)

lemma create_mesh_for_block_None:
  "\<not> buffer_ok api mesh block_pos \<Longrightarrow> create_mesh_for_block api mesh block_pos = None"
  by (auto simp: create_mesh_for_block_def buffer_ok_def Let_def split: prod.splits)

text \<open>
  Claim C9. When the tessellation of a block yields \<open>nb > 0\<close> quads (and the buffer it
  filled holds the \<open>4 * nb\<close> vertices it announces), the mesh of the block has exactly
  \<open>4 * nb\<close> vertices and \<open>2 * nb\<close> triangles; the quad \<open>i\<close> contributes the vertices
  \<open>4i .. 4i+3\<close>, in the order of the buffer, and the triangles \<open>(4i, 4i+1, 4i+2)\<close> and
  \<open>(4i+2, 4i+3, 4i)\<close>; the colour attribute \<open>Col\<close> has \<open>6 * nb\<close> entries, and each of the
  six corners of the quad \<open>i\<close> carries the colour of the vertex \<open>4i\<close>.
\<close>

theorem create_mesh_for_block_quads:
  assumes gen: "mesh_generate_vertices api mesh block_pos 0 (calloc_vertices api) = (nb, vertices)"
    and nb: "0 < nb" and buf: "nb * 4 \<le> length vertices"
  shows "\<exists>ret col. create_mesh_for_block api mesh block_pos = Some ret
     \<and> length (verts ret) = 4 * nb \<and> length (triangles ret) = 2 * nb
     \<and> attributes ret = [(''Col'', col)] \<and> length col = 6 * nb
     \<and> (\<forall>i<nb.
           (\<forall>j<4. verts ret ! (4 * i + j) = pos (vertices ! (4 * i + j)))
         \<and> triangles ret ! (2 * i) = (4 * i, 4 * i + 1, 4 * i + 2)
         \<and> triangles ret ! (2 * i + 1) = (4 * i + 2, 4 * i + 3, 4 * i)
         \<and> (\<forall>c<6. col ! (6 * i + c) = color (vertices ! (4 * i))))"
proof -
  define r where "r = fold (add_quad vertices) [0..<nb] new_Mesh"
  define col where "col = fold (set_corner_color vertices) [0..<nb * 6] (attribute_corner_data r)"
  define ret where "ret = attributes_add r ''Col'' col"
  have res: "create_mesh_for_block api mesh block_pos = Some ret"
    unfolding ret_def col_def r_def by (rule create_mesh_for_block_unfold [OF gen nb buf])
  have v: "verts ret = map (\<lambda>k. pos (vertices ! k)) [0..<nb * 4]"
    by (simp add: ret_def r_def attributes_add_def verts_fold_add_quad new_Mesh_def)
  have t: "triangles ret = concat (map quad_triangles [0..<nb])"
    by (simp add: ret_def r_def attributes_add_def triangles_fold_add_quad new_Mesh_def)
  have a: "attributes ret = [(''Col'', col)]"
    by (simp add: ret_def r_def attributes_add_def attributes_fold_add_quad new_Mesh_def)
  have "triangles r = concat (map quad_triangles [0..<nb])"
    by (simp add: r_def triangles_fold_add_quad new_Mesh_def)
  then have lc: "length col = 6 * nb"
    by (simp add: col_def length_fold_set_corner_color attribute_corner_data_def
        length_quad_triangles)
  have per_quad: "(\<forall>j<4. verts ret ! (4 * i + j) = pos (vertices ! (4 * i + j)))
         \<and> triangles ret ! (2 * i) = (4 * i, 4 * i + 1, 4 * i + 2)
         \<and> triangles ret ! (2 * i + 1) = (4 * i + 2, 4 * i + 3, 4 * i)
         \<and> (\<forall>c<6. col ! (6 * i + c) = color (vertices ! (4 * i)))" if i: "i < nb" for i
  proof -
    have "verts ret ! (4 * i + j) = pos (vertices ! (4 * i + j))" if "j < 4" for j
    proof -
      from i that have "4 * i + j < nb * 4" by simp
      then show ?thesis by (simp add: v)
    qed
    moreover from nth_quad_triangles [OF i]
    have "triangles ret ! (2 * i) = (4 * i, 4 * i + 1, 4 * i + 2)"
      and "triangles ret ! (2 * i + 1) = (4 * i + 2, 4 * i + 3, 4 * i)"
      by (simp_all add: t mult.commute)
    moreover have "col ! (6 * i + c) = color (vertices ! (4 * i))" if "c < 6" for c
    proof -
      from i that have k: "6 * i + c < nb * 6" by simp
      from that have d: "(6 * i + c) div 6 = i" by simp
      have "6 * i + c < length (attribute_corner_data r)"
        using lc k by (simp add: col_def length_fold_set_corner_color)
      from nth_fold_set_corner_color [OF this k, of vertices]
      show ?thesis using that by (simp add: col_def mult.commute)
    qed
    ultimately show ?thesis by blast
  qed
  have lv: "length (verts ret) = 4 * nb"
    by (simp add: v)
  have lt: "length (triangles ret) = 2 * nb"
    by (simp add: t length_quad_triangles)
  from res lv lt a lc per_quad show ?thesis
    by blast
qed

text \<open>The block at the origin of the two-block volume: one quad, four vertices, two triangles.\<close>

theorem create_mesh_for_block_quads_witness:
  "mesh_generate_vertices toy_api toy_volume (0, 0, 0) 0 (calloc_vertices toy_api)
     = (1, toy_quad @ replicate 20 \<lparr>pos = (0, 0, 0), color = (0, 0, 0, 0)\<rparr>)
   \<and> (\<exists>ret col. create_mesh_for_block toy_api toy_volume (0, 0, 0) = Some ret
        \<and> length (verts ret) = 4 \<and> length (triangles ret) = 2
        \<and> verts ret ! 2 = (1, 1, 1)
        \<and> triangles ret ! 0 = (0, 1, 2) \<and> triangles ret ! 1 = (2, 3, 0)
        \<and> attributes ret = [(''Col'', col)] \<and> length col = 6 \<and> col ! 5 = (255, 0, 0, 255))"
proof -
  let ?vs = "toy_quad @ replicate 20 \<lparr>pos = (0, 0, 0), color = (0, 0, 0, 0)\<rparr>"
  have gen: "mesh_generate_vertices toy_api toy_volume (0, 0, 0) 0 (calloc_vertices toy_api)
     = (1, ?vs)"
    by (simp add: toy_api_def toy_generate_vertices_def toy_volume_def
        calloc_vertices_def toy_quad_def)
  have nb: "0 < (1::nat)" by simp
  have buf: "1 * 4 \<le> length ?vs" by (simp add: toy_quad_def)
  from create_mesh_for_block_quads [OF gen nb buf]
  obtain ret col where res: "create_mesh_for_block toy_api toy_volume (0, 0, 0) = Some ret"
    and l: "length (verts ret) = 4 * 1" "length (triangles ret) = 2 * 1"
      "attributes ret = [(''Col'', col)]" "length col = 6 * 1"
    and q: "\<forall>i<1.
           (\<forall>j<4. verts ret ! (4 * i + j) = pos (?vs ! (4 * i + j)))
         \<and> triangles ret ! (2 * i) = (4 * i, 4 * i + 1, 4 * i + 2)
         \<and> triangles ret ! (2 * i + 1) = (4 * i + 2, 4 * i + 3, 4 * i)
         \<and> (\<forall>c<6. col ! (6 * i + c) = color (?vs ! (4 * i)))"
    by blast
  from q have "verts ret ! (4 * 0 + 2) = pos (?vs ! (4 * 0 + 2))"
    and "triangles ret ! (2 * 0) = (4 * 0, 4 * 0 + 1, 4 * 0 + 2)"
    and "triangles ret ! (2 * 0 + 1) = (4 * 0 + 2, 4 * 0 + 3, 4 * 0)"
    and "col ! (6 * 0 + 5) = color (?vs ! (4 * 0))"
    by simp_all
  then have "verts ret ! 2 = (1, 1, 1)" "triangles ret ! 0 = (0, 1, 2)"
    "triangles ret ! 1 = (2, 3, 0)" "col ! 5 = (255, 0, 0, 255)"
    by (simp_all add: toy_quad_def numeral_2_eq_2)
  with gen res l show ?thesis by simp
qed

subsection \<open>Initialization\<close>

lemma cycles_init_params:
  "progressive (g_session_params (cycles_init devices d s))
   \<and> start_resolution (g_session_params (cycles_init devices d s)) = 64
   \<and> samples (g_session_params (cycles_init devices d s)) = 20
   \<and> device (g_session_params (cycles_init devices d s))
       = select_device DEVICE_CPU devices d"
  by (simp add: cycles_init_def type_from_string_def)

lemma cycles_init_rest:
  "g_session (cycles_init devices d s) = g_session s
   \<and> last_key (cycles_init devices d s) = last_key s
   \<and> trace (cycles_init devices d s) = trace s
   \<and> sessions_made (cycles_init devices d s) = sessions_made s
   \<and> g_buffer_params (cycles_init devices d s) = g_buffer_params s"
  by (simp add: cycles_init_def)

lemma select_device_none:
  "\<forall>d\<in>set devices. dev_type d \<noteq> t \<Longrightarrow> select_device t devices info = info"
  by (induction devices) auto

lemma select_device_first:
  "select_device t (pre @ d # post) info = d"
  if "\<forall>x\<in>set pre. dev_type x \<noteq> t" and "dev_type d = t"
  using that by (induction pre) auto

text \<open>
  Claim C8, as the code has it. \<^verbatim>\<open>cycles_init\<close> has no error path. When no enumerated
  device has the CPU type it completes all the same: it sets progressive mode, the start
  resolution 64 and 20 samples, and stores the default-constructed device information
  in the session parameters. When a device has the CPU type, the first such device is
  stored.
\<close>

theorem cycles_init_device_selection:
  "((\<forall>d\<in>set devices. dev_type d \<noteq> DEVICE_CPU) \<longrightarrow>
      cycles_init devices default_info s =
        s\<lparr>g_session_params := (g_session_params s)
            \<lparr>progressive := True, start_resolution := 64, device := default_info,
             samples := 20\<rparr>\<rparr>)
   \<and> ((\<forall>x\<in>set pre. dev_type x \<noteq> DEVICE_CPU) \<and> dev_type d = DEVICE_CPU \<longrightarrow>
      cycles_init (pre @ d # post) default_info s =
        s\<lparr>g_session_params := (g_session_params s)
            \<lparr>progressive := True, start_resolution := 64, device := d, samples := 20\<rparr>\<rparr>)"
  by (simp add: cycles_init_def type_from_string_def select_device_none select_device_first)

text \<open>With a CUDA device only, and with a CUDA device followed by a CPU device.\<close>

theorem cycles_init_device_selection_witness:
  "device (g_session_params (cycles_init [toy_cuda] toy_default_device (toy_start :: int globals)))
     = toy_default_device
   \<and> progressive (g_session_params (cycles_init [toy_cuda] toy_default_device (toy_start :: int globals)))
   \<and> device (g_session_params (cycles_init [toy_cuda, toy_cpu] toy_default_device (toy_start :: int globals)))
     = toy_cpu"
proof -
  have a: "\<forall>d\<in>set [toy_cuda]. dev_type d \<noteq> DEVICE_CPU"
    and b: "dev_type toy_cpu = DEVICE_CPU"
    by (simp_all add: toy_cuda_def toy_cpu_def)
  from cycles_init_device_selection [of "[toy_cuda]" toy_default_device "toy_start :: int globals"
      "[toy_cuda]" toy_cpu "[]"] a b
  show ?thesis by simp
qed

text \<open>
  Claim C8 as it is written fails: with a CUDA device only, \<^verbatim>\<open>cycles_init\<close> returns,
  and the session parameters hold the default device information (here of type
  \<open>DEVICE_NONE\<close>) beside the three values it sets.
\<close>

theorem cycles_init_no_cpu_counterexample:
  "(cycles_init [toy_cuda] toy_default_device toy_start :: int globals)
     = \<lparr>g_session = None,
        g_buffer_params = \<lparr>width = 0, height = 0, full_width = 0, full_height = 0\<rparr>,
        g_session_params = \<lparr>progressive = True, start_resolution = 64,
                             device = \<lparr>dev_type = DEVICE_NONE, dev_id = ''''\<rparr>, samples = 20\<rparr>,
        last_key = 0, sessions_made = 0, trace = []\<rparr>"
  by code_simp

subsection \<open>The scene\<close>

lemma add_blocks_Some:
  "\<forall>bp\<in>set bps. buffer_ok api gmesh bp \<Longrightarrow>
     \<exists>sc. add_blocks api gmesh sh bps sc0 = Some sc"
proof (induction bps arbitrary: sc0)
  case Nil
  show ?case by simp
next
  case (Cons bp bps)
  from Cons.prems obtain m where "create_mesh_for_block api gmesh bp = Some m"
    using create_mesh_for_block_Some by fastforce
  with Cons show ?case by (simp add: Let_def)
qed

lemma add_blocks_result:
  "add_blocks api gmesh sh bps sc0 = Some sc \<Longrightarrow>
     map Some (objects sc) = map Some (objects sc0) @ map (block_object api gmesh sh) bps
     \<and> meshes sc = meshes sc0 @ map object_mesh (drop (length (objects sc0)) (objects sc))
     \<and> shaders sc = shaders sc0 \<and> lights sc = lights sc0
     \<and> scene_camera sc = scene_camera sc0 \<and> scene_device sc = scene_device sc0
     \<and> shadingsystem sc = shadingsystem sc0"
proof (induction bps arbitrary: sc0)
  case Nil
  then show ?case by simp
next
  case (Cons bp bps)
  from Cons.prems obtain m where m: "create_mesh_for_block api gmesh bp = Some m"
    by (auto split: option.splits)
  define mesh where "mesh = m\<lparr>used_shaders := used_shaders m @ [sh]\<rparr>"
  define ob where "ob = \<lparr>object_name = ''mesh'', object_mesh = mesh, tfm_translate = bp\<rparr>"
  define sc1 where "sc1 = sc0\<lparr>meshes := meshes sc0 @ [mesh], objects := objects sc0 @ [ob]\<rparr>"
  from Cons.prems m have "add_blocks api gmesh sh bps sc1 = Some sc"
    by (simp add: Let_def sc1_def ob_def mesh_def)
  from Cons.IH [OF this]
  have ih: "map Some (objects sc) = map Some (objects sc1) @ map (block_object api gmesh sh) bps"
    "meshes sc = meshes sc1 @ map object_mesh (drop (length (objects sc1)) (objects sc))"
    "shaders sc = shaders sc1" "lights sc = lights sc1"
    "scene_camera sc = scene_camera sc1" "scene_device sc = scene_device sc1"
    "shadingsystem sc = shadingsystem sc1"
    by simp_all
  have bo: "block_object api gmesh sh bp = Some ob"
    by (simp add: block_object_def m ob_def mesh_def)
  have len: "length (objects sc) = Suc (length (objects sc0)) + length bps"
    using arg_cong [OF ih(1), of length] by (simp add: sc1_def)
  have nth: "objects sc ! length (objects sc0) = ob"
  proof -
    have "map Some (objects sc) ! length (objects sc0) = Some ob"
      by (simp add: ih(1) sc1_def nth_append)
    with len show ?thesis by simp
  qed
  have "drop (length (objects sc0)) (objects sc)
      = ob # drop (Suc (length (objects sc0))) (objects sc)"
    using len nth Cons_nth_drop_Suc [of "length (objects sc0)" "objects sc"] by simp
  with ih bo show ?case
    by (simp add: sc1_def ob_def)
qed

lemma camera_matrix_eq_spec:
  "camera_matrix api goxel =
     camera_matrix_spec api (ofs (camera goxel)) (rot (camera goxel)) (dist (camera goxel))"
  by (simp add: camera_matrix_def camera_matrix_spec_def Let_def split: prod.splits)

lemma create_scene_Some:
  assumes res: "create_scene api goxel s w h = Some sc"
  shows "map Some (objects sc)
         = map (block_object api (render_mesh goxel) create_cube_shader)
             (mesh_iter_blocks api (render_mesh goxel))
     \<and> meshes sc = map object_mesh (objects sc)
     \<and> shaders sc = [create_cube_shader, create_light_shader]
     \<and> lights sc = [\<lparr>lgt_type = LIGHT_DISTANT, lgt_dir = get_light_dir api goxel,
                      lgt_shader = create_light_shader\<rparr>]
     \<and> scene_camera sc =
          \<lparr>cam_width = w, cam_height = h, cam_type = CAMERA_PERSPECTIVE,
           cam_full_width = w, cam_full_height = h, cam_matrix = camera_matrix api goxel,
           need_update = True, need_device_update = True\<rparr>
     \<and> map_option session_device (g_session s) = Some (scene_device sc)
     \<and> shadingsystem sc = SHADINGSYSTEM_OSL"
proof -
  from res obtain ss where sess: "g_session s = Some ss"
    by (auto simp: create_scene_def split: option.splits)
  define sc0 where "sc0 =
    \<lparr>shadingsystem = SHADINGSYSTEM_OSL, scene_device = session_device ss,
     scene_camera = \<lparr>cam_width = w, cam_height = h, cam_type = CAMERA_PERSPECTIVE,
           cam_full_width = w, cam_full_height = h, cam_matrix = camera_matrix api goxel,
           need_update = True, need_device_update = True\<rparr>,
     shaders = [create_cube_shader], meshes = [], objects = [], lights = []\<rparr>"
  from res obtain sc1 where sc1: "add_blocks api (render_mesh goxel) create_cube_shader
      (mesh_iter_blocks api (render_mesh goxel)) sc0 = Some sc1"
    and sc: "sc = sc1\<lparr>shaders := shaders sc1 @ [create_light_shader],
              lights := lights sc1 @ [\<lparr>lgt_type = LIGHT_DISTANT, lgt_dir = get_light_dir api goxel,
                      lgt_shader = create_light_shader\<rparr>]\<rparr>"
    by (auto simp: create_scene_def sess Let_def sc0_def split: option.splits)
  from add_blocks_result [OF sc1] show ?thesis
    by (simp add: sc sc0_def sess)
qed

lemma create_scene_total:
  assumes sess: "g_session s = Some ss"
    and ok: "\<forall>bp\<in>set (mesh_iter_blocks api (render_mesh goxel)). buffer_ok api (render_mesh goxel) bp"
  shows "\<exists>sc. create_scene api goxel s w h = Some sc"
proof -
  from add_blocks_Some [OF ok]
  obtain sc1 where "add_blocks api (render_mesh goxel) create_cube_shader
      (mesh_iter_blocks api (render_mesh goxel))
      \<lparr>shadingsystem = SHADINGSYSTEM_OSL, scene_device = session_device ss,
       scene_camera = \<lparr>cam_width = w, cam_height = h, cam_type = CAMERA_PERSPECTIVE,
           cam_full_width = w, cam_full_height = h, cam_matrix = camera_matrix api goxel,
           need_update = True, need_device_update = True\<rparr>,
       shaders = [create_cube_shader], meshes = [], objects = [], lights = []\<rparr> = Some sc1"
    by blast
  then show ?thesis
    by (simp add: create_scene_def sess Let_def)
qed

lemma create_scene_no_session:
  "g_session s = None \<Longrightarrow> create_scene api goxel s w h = None"
  by (simp add: create_scene_def)

lemma create_scene_device:
  "g_session s = Some ss \<Longrightarrow> g_session t = Some tt \<Longrightarrow> session_device ss = session_device tt
     \<Longrightarrow> create_scene api goxel s w h = create_scene api goxel t w h"
  by (simp add: create_scene_def)

lemma block_object_translate:
  "block_object api gmesh sh bp = Some ob \<Longrightarrow> tfm_translate ob = bp"
  by (auto simp: block_object_def)

lemma objects_translate:
  assumes "map Some obs = map (block_object api gmesh sh) bps"
  shows "map tfm_translate obs = bps"
proof (rule nth_equalityI)
  from assms have len: "length obs = length bps"
    by (rule map_eq_imp_length_eq)
  then show "length (map tfm_translate obs) = length bps" by simp
  fix k assume "k < length (map tfm_translate obs)"
  with len have k: "k < length obs" "k < length bps" by simp_all
  from assms have "map Some obs ! k = map (block_object api gmesh sh) bps ! k" by simp
  with k have "block_object api gmesh sh (bps ! k) = Some (obs ! k)" by simp
  from block_object_translate [OF this] k show "map tfm_translate obs ! k = bps ! k" by simp
qed

lemma toy_ok:
  "\<forall>bp\<in>set (mesh_iter_blocks toy_api (render_mesh (toy_editor m view))). buffer_ok toy_api (render_mesh (toy_editor m view)) bp"
  if "m = toy_volume \<or> m = toy_volume\<lparr>tm_key := - 8\<rparr>"
  using that
  by (auto simp: toy_api_def toy_editor_def toy_volume_def buffer_ok_def calloc_vertices_def
      toy_generate_vertices_def toy_quad_def)

text \<open>
  Claim C1, as the code has it. A block whose tessellation yields no quad gets the empty
  mesh (no vertex, no triangle, no colour attribute), and \<^verbatim>\<open>create_scene\<close> adds one
  mesh and one object for every block the iterator visits, the empty ones included: the
  objects of the scene are, in order, placed at the visited blocks, their meshes are the
  meshes of the scene, and the object of a block without quads is the empty mesh with
  the object shader. (The scene exists when a session does and the vertex buffer of
  every block holds what the tessellation announces.)
\<close>

theorem create_scene_object_per_block:
  fixes s :: "'f::{zero,one,uminus,times} globals"
  assumes sess: "g_session s = Some ss"
    and ok: "\<forall>bp\<in>set (mesh_iter_blocks api (render_mesh goxel)). buffer_ok api (render_mesh goxel) bp"
  shows "\<exists>sc. create_scene api goxel s w h = Some sc
     \<and> map tfm_translate (objects sc) = mesh_iter_blocks api (render_mesh goxel)
     \<and> map object_mesh (objects sc) = meshes sc
     \<and> (\<forall>k<length (mesh_iter_blocks api (render_mesh goxel)).
          fst (mesh_generate_vertices api (render_mesh goxel)
                 (mesh_iter_blocks api (render_mesh goxel) ! k) 0 (calloc_vertices api)) = 0
          \<longrightarrow> create_mesh_for_block api (render_mesh goxel)
                 (mesh_iter_blocks api (render_mesh goxel) ! k) = Some new_Mesh
            \<and> objects sc ! k =
                 \<lparr>object_name = ''mesh'',
                  object_mesh = new_Mesh\<lparr>used_shaders := [create_cube_shader]\<rparr>,
                  tfm_translate = mesh_iter_blocks api (render_mesh goxel) ! k\<rparr>)"
proof -
  let ?bps = "mesh_iter_blocks api (render_mesh goxel)"
  from create_scene_total [OF sess ok, of w h]
  obtain sc where sc: "create_scene api goxel s w h = Some sc" by blast
  from create_scene_Some [OF sc]
  have obs: "map Some (objects sc) = map (block_object api (render_mesh goxel) create_cube_shader) ?bps"
    and ms: "meshes sc = map object_mesh (objects sc)"
    by simp_all
  have tr: "map tfm_translate (objects sc) = ?bps"
    by (rule objects_translate [OF obs])
  have empty: "create_mesh_for_block api (render_mesh goxel) (?bps ! k) = Some new_Mesh
      \<and> objects sc ! k = \<lparr>object_name = ''mesh'',
                  object_mesh = new_Mesh\<lparr>used_shaders := [create_cube_shader]\<rparr>,
                  tfm_translate = ?bps ! k\<rparr>"
    if k: "k < length ?bps"
      and z: "fst (mesh_generate_vertices api (render_mesh goxel) (?bps ! k) 0 (calloc_vertices api)) = 0"
    for k
  proof -
    from create_mesh_for_block_empty [OF z]
    have m: "create_mesh_for_block api (render_mesh goxel) (?bps ! k) = Some new_Mesh" .
    from obs have "map Some (objects sc) ! k
        = map (block_object api (render_mesh goxel) create_cube_shader) ?bps ! k"
      by simp
    moreover from obs k have "k < length (objects sc)"
      using map_eq_imp_length_eq [OF obs] by simp
    ultimately have "Some (objects sc ! k)
        = block_object api (render_mesh goxel) create_cube_shader (?bps ! k)"
      using k by simp
    with m show ?thesis
      by (simp add: block_object_def new_Mesh_def)
  qed
  from sc tr ms empty show ?thesis by auto
qed

text \<open>The two-block volume: the second object is an empty mesh at (1, 0, 0).\<close>

theorem create_scene_object_per_block_witness:
  "\<exists>sc. create_scene toy_api (toy_editor toy_volume toy_identity)
          (new_Session (g_session_params toy_ready) toy_ready) 800 600 = Some sc
     \<and> map tfm_translate (objects sc) = [(0, 0, 0), (1, 0, 0)]
     \<and> map object_mesh (objects sc) = meshes sc
     \<and> objects sc ! 1 = \<lparr>object_name = ''mesh'',
                          object_mesh = new_Mesh\<lparr>used_shaders := [create_cube_shader]\<rparr>,
                          tfm_translate = (1, 0, 0)\<rparr>"
proof -
  let ?g = "toy_editor toy_volume toy_identity"
  let ?s = "new_Session (g_session_params toy_ready) toy_ready"
  have sess: "g_session ?s = Some \<lparr>session_id = 0, params = g_session_params toy_ready,
      session_device = device (g_session_params toy_ready), scene = None, reset_with = None,
      started = False\<rparr>"
    by (simp add: new_Session_def emit_def toy_ready_def toy_start_def initial_globals_def
        cycles_init_rest)
  have ok: "\<forall>bp\<in>set (mesh_iter_blocks toy_api (render_mesh ?g)). buffer_ok toy_api (render_mesh ?g) bp"
    by (rule toy_ok) simp
  have bps: "mesh_iter_blocks toy_api (render_mesh ?g) = [(0, 0, 0), (1, 0, 0)]"
    by (simp add: toy_api_def toy_editor_def toy_volume_def)
  have z: "fst (mesh_generate_vertices toy_api (render_mesh ?g) (1, 0, 0) 0 (calloc_vertices toy_api)) = 0"
    by (simp add: toy_api_def toy_editor_def toy_volume_def toy_generate_vertices_def)
  from create_scene_object_per_block [OF sess ok, of 800 600]
  obtain sc where sc: "create_scene toy_api ?g ?s 800 600 = Some sc"
    and tr: "map tfm_translate (objects sc) = mesh_iter_blocks toy_api (render_mesh ?g)"
    and ms: "map object_mesh (objects sc) = meshes sc"
    and e: "\<forall>k<length (mesh_iter_blocks toy_api (render_mesh ?g)).
          fst (mesh_generate_vertices toy_api (render_mesh ?g)
                 (mesh_iter_blocks toy_api (render_mesh ?g) ! k) 0 (calloc_vertices toy_api)) = 0
          \<longrightarrow> create_mesh_for_block toy_api (render_mesh ?g)
                 (mesh_iter_blocks toy_api (render_mesh ?g) ! k) = Some new_Mesh
            \<and> objects sc ! k =
                 \<lparr>object_name = ''mesh'',
                  object_mesh = new_Mesh\<lparr>used_shaders := [create_cube_shader]\<rparr>,
                  tfm_translate = mesh_iter_blocks toy_api (render_mesh ?g) ! k\<rparr>"
    by blast
  from e [rule_format, of 1] z
  have "objects sc ! 1 = \<lparr>object_name = ''mesh'',
                  object_mesh = new_Mesh\<lparr>used_shaders := [create_cube_shader]\<rparr>,
                  tfm_translate = (1, 0, 0)\<rparr>"
    by (simp add: bps)
  with sc tr ms bps show ?thesis by simp
qed

text \<open>
  Claim C1 as it is written fails: the iterator visits the block (1, 0, 0), its
  tessellation yields 0 quads, and the scene has an object for it all the same (the
  second one, with no vertex and no triangle).
\<close>

theorem create_scene_empty_block_counterexample:
  "mesh_iter_blocks toy_api toy_volume = [(0, 0, 0), (1, 0, 0)]
   \<and> fst (mesh_generate_vertices toy_api toy_volume (1, 0, 0) 0 (calloc_vertices toy_api)) = 0
   \<and> map_option objects
        (create_scene toy_api (toy_editor toy_volume toy_identity)
           (new_Session (g_session_params toy_ready) toy_ready) 800 600)
      = Some [\<lparr>object_name = ''mesh'',
               object_mesh =
                 \<lparr>subdivision_type = SUBDIVISION_NONE,
                  verts = [(0, 0, 1), (1, 0, 1), (1, 1, 1), (0, 1, 1)],
                  triangles = [(0, 1, 2), (2, 3, 0)],
                  triangle_shader = [0, 0], triangle_smooth = [False, False],
                  attributes = [(''Col'', [(255, 0, 0, 255), (255, 0, 0, 255), (255, 0, 0, 255),
                                           (255, 0, 0, 255), (255, 0, 0, 255), (255, 0, 0, 255)])],
                  used_shaders = [create_cube_shader]\<rparr>,
               tfm_translate = (0, 0, 0)\<rparr>,
              \<lparr>object_name = ''mesh'',
               object_mesh =
                 \<lparr>subdivision_type = SUBDIVISION_NONE, verts = [], triangles = [],
                  triangle_shader = [], triangle_smooth = [], attributes = [],
                  used_shaders = [create_cube_shader]\<rparr>,
               tfm_translate = (1, 0, 0)\<rparr>]"
  by code_simp

text \<open>
  Claim C7. The camera matrix of the scene is the transpose of the scale (1, 1, -1)
  applied after the translation by the distance along z, applied after the rotation by
  the camera quaternion with its first component multiplied by \<open>-1\<close>, applied after the
  translation by the negated offset, applied to the identity: the composition of the
  specification.
\<close>

theorem create_scene_camera_matrix:
  fixes s :: "'f::{zero,one,uminus,times} globals"
  assumes sc: "create_scene api goxel s w h = Some sc"
    and ofs: "ofs (camera goxel) = (o0, o1, o2)"
    and rot: "rot (camera goxel) = (r0, r1, r2, r3)"
  shows "cam_matrix (scene_camera sc) =
       mat4_transpose api
         (mat4_iscale api
            (mat4_itranslate api
               (mat4_imul_quat api
                  (mat4_itranslate api (mat4_set_identity api) (- o0) (- o1) (- o2))
                  (r0 * (- 1), r1, r2, r3))
               0 0 (dist (camera goxel)))
            1 1 (- 1))
     \<and> cam_matrix (scene_camera sc) =
         camera_matrix_spec api (ofs (camera goxel)) (rot (camera goxel)) (dist (camera goxel))"
  using create_scene_Some [OF sc]
  by (simp add: camera_matrix_eq_spec) (simp add: camera_matrix_spec_def ofs rot)

text \<open>Offset (1, 2, 3), no rotation, distance 10, on integer matrices.\<close>

theorem create_scene_camera_matrix_witness:
  "\<exists>sc. create_scene toy_api (toy_editor toy_volume toy_identity)
          (new_Session (g_session_params toy_ready) toy_ready) 800 600 = Some sc
     \<and> cam_matrix (scene_camera sc) = [[1, 0, 0, - 1], [0, 1, 0, - 2], [0, 0, - 1, 7], [0, 0, 0, 1]]"
proof -
  let ?g = "toy_editor toy_volume toy_identity"
  let ?s = "new_Session (g_session_params toy_ready) toy_ready"
  have "create_scene toy_api ?g ?s 800 600 \<noteq> None" by code_simp
  then obtain sc where sc: "create_scene toy_api ?g ?s 800 600 = Some sc" by blast
  have o: "ofs (camera ?g) = (1, 2, 3)" and r: "rot (camera ?g) = (1, 0, 0, 0)"
    by (simp_all add: toy_editor_def)
  have "mat4_transpose toy_api
         (mat4_iscale toy_api
            (mat4_itranslate toy_api
               (mat4_imul_quat toy_api
                  (mat4_itranslate toy_api (mat4_set_identity toy_api) (- 1) (- 2) (- 3))
                  (1 * (- 1), 0, 0, 0))
               0 0 (dist (camera ?g)))
            1 1 (- 1)) = [[1, 0, 0, - 1], [0, 1, 0, - 2], [0, 0, - 1, 7], [0, 0, 0, 1]]"
    by code_simp
  with create_scene_camera_matrix [OF sc o r] sc show ?thesis by simp
qed

subsection \<open>The render key\<close>

text \<open>
  Claim C2. The render key is the checksum of the projection matrix's bytes seeded with
  the checksum of the view matrix's bytes seeded with the content hash of the volume,
  which is the fold of the specification; and it is a function of these three inputs
  alone: two editor states with the same content hash and the same matrix bytes have
  the same key. (\<open>get_render_key\<close> takes no state and returns none: it is pure.)
\<close>

theorem get_render_key_fold:
  "get_render_key api goxel
     = crc64 api (crc64 api (mesh_get_key api (render_mesh goxel))
                    (mat_bytes api (view_mat (camera goxel))))
         (mat_bytes api (proj_mat (camera goxel)))
   \<and> get_render_key api goxel
     = render_key_spec api (mesh_get_key api (render_mesh goxel))
         (mat_bytes api (view_mat (camera goxel))) (mat_bytes api (proj_mat (camera goxel)))
   \<and> (\<forall>goxel'. mesh_get_key api (render_mesh goxel') = mesh_get_key api (render_mesh goxel)
          \<and> mat_bytes api (view_mat (camera goxel')) = mat_bytes api (view_mat (camera goxel))
          \<and> mat_bytes api (proj_mat (camera goxel')) = mat_bytes api (proj_mat (camera goxel))
        \<longrightarrow> get_render_key api goxel' = get_render_key api goxel)"
  by (simp add: get_render_key_def render_key_spec_def Let_def)

text \<open>Two editor states that differ in the light only: the same key, 15.\<close>

theorem get_render_key_fold_witness:
  "get_render_key toy_api (toy_editor toy_volume toy_identity) = 15
   \<and> get_render_key toy_api
        ((toy_editor toy_volume toy_identity)\<lparr>rend := \<lparr>light = \<lparr>yaw = 1, pitch = 2\<rparr>\<rparr>\<rparr>) = 15"
proof -
  let ?g = "toy_editor toy_volume toy_identity"
  let ?g' = "?g\<lparr>rend := \<lparr>light = \<lparr>yaw = 1, pitch = 2\<rparr>\<rparr>\<rparr>"
  have k: "get_render_key toy_api ?g = 15" by code_simp
  have same: "mesh_get_key toy_api (render_mesh ?g') = mesh_get_key toy_api (render_mesh ?g)
          \<and> mat_bytes toy_api (view_mat (camera ?g')) = mat_bytes toy_api (view_mat (camera ?g))
          \<and> mat_bytes toy_api (proj_mat (camera ?g')) = mat_bytes toy_api (proj_mat (camera ?g))"
    by simp
  from get_render_key_fold [of toy_api ?g] same
  have "get_render_key toy_api ?g' = get_render_key toy_api ?g" by blast
  with k show ?thesis by simp
qed

subsection \<open>The frame\<close>

lemma buffer_update_eq:
  "bp\<lparr>width := w, height := h, full_width := w, full_height := h\<rparr> = viewport_buffer w h"
  by (simp add: viewport_buffer_def)

lemma cycles_render_same_key:
  assumes "get_render_key api goxel = last_key s"
  shows "cycles_render api goxel (r0, r1, w, h) s =
     Some (s\<lparr>g_buffer_params := viewport_buffer w h,
              trace := trace s @ gl_setup (r0, r1, w, h) (viewport_buffer w h)
                         @ draw_events (g_session s) (viewport_buffer w h)\<rparr>)"
  using assms
  by (cases "g_session s")
    (simp_all add: cycles_render_def buffer_update_eq emit_def session_draw_def
      session_get_status_def draw_events_def Let_def)

lemma rebuild_eq:
  fixes s :: "'f::{zero,one,uminus,times} globals"
  defines "p \<equiv> g_session_params s" and "n \<equiv> sessions_made s"
  shows "rebuild api goxel key w h s =
     (case create_scene api goxel (new_Session p s) w h of
        None \<Rightarrow> None
      | Some sc \<Rightarrow>
       Some \<lparr>g_session = Some \<lparr>session_id = n, params = p, session_device = device p,
                 scene = Some sc, reset_with = Some (g_buffer_params s, samples p),
                 started = True\<rparr>,
             g_buffer_params = g_buffer_params s, g_session_params = p, last_key = key,
             sessions_made = Suc n,
             trace = trace s @ delete_events (g_session s)
                       @ [EvSessionNew n p, EvCreateScene w h,
                          EvSessionReset n (g_buffer_params s) (samples p),
                          EvSessionStart n]\<rparr>)"
proof -
  define s1 where "s1 = (s\<lparr>last_key := key, g_session := None,
                            trace := trace s @ delete_events (g_session s)\<rparr>)"
  have del: "(if g_session (s\<lparr>last_key := key\<rparr>) \<noteq> None then delete_session (s\<lparr>last_key := key\<rparr>)
              else Some (s\<lparr>last_key := key\<rparr>)) = Some s1"
    by (cases "g_session s") (simp_all add: delete_session_def emit_def s1_def delete_events_def)
  define s2 where "s2 = new_Session (g_session_params s1) s1"
  have s2: "g_session s2 = Some \<lparr>session_id = n, params = p, session_device = device p,
                 scene = None, reset_with = None, started = False\<rparr>"
    by (simp add: s2_def new_Session_def emit_def s1_def p_def n_def)
  have s2': "g_session (new_Session p s) = Some \<lparr>session_id = n, params = p, session_device = device p,
                 scene = None, reset_with = None, started = False\<rparr>"
    by (simp add: new_Session_def emit_def p_def n_def)
  have sc: "create_scene api goxel s2 w h = create_scene api goxel (new_Session p s) w h"
    using create_scene_device [OF s2 s2', of api goxel w h] by simp
  show ?thesis
    unfolding rebuild_def Let_def del
    using sc [unfolded s2_def]
    by (cases "create_scene api goxel (new_Session p s) w h")
      (simp_all add: new_Session_def emit_def set_scene_def session_reset_def session_start_def
        s1_def p_def n_def)
qed

lemma cycles_render_new_key:
  fixes s :: "'f::{zero,one,uminus,times} globals"
  assumes key: "get_render_key api goxel \<noteq> last_key s"
  defines "p \<equiv> g_session_params s" and "n \<equiv> sessions_made s"
  shows "cycles_render api goxel (r0, r1, w, h) s =
     (case create_scene api goxel (new_Session p s) w h of
        None \<Rightarrow> None
      | Some sc \<Rightarrow>
       Some \<lparr>g_session = Some \<lparr>session_id = n, params = p, session_device = device p,
                 scene = Some sc, reset_with = Some (viewport_buffer w h, samples p),
                 started = True\<rparr>,
             g_buffer_params = viewport_buffer w h, g_session_params = p,
             last_key = get_render_key api goxel,
             sessions_made = Suc n,
             trace = trace s @ gl_setup (r0, r1, w, h) (viewport_buffer w h)
                       @ delete_events (g_session s)
                       @ [EvSessionNew n p, EvCreateScene w h,
                          EvSessionReset n (viewport_buffer w h) (samples p),
                          EvSessionStart n,
                          EvSessionDraw n (viewport_buffer w h), EvGetStatus n]\<rparr>)"
proof -
  define s1 where "s1 = s\<lparr>g_buffer_params := viewport_buffer w h,
      trace := trace s @ gl_setup (r0, r1, w, h) (viewport_buffer w h)\<rparr>"
  have sess: "g_session (new_Session p s1) = Some \<lparr>session_id = n, params = p, session_device = device p,
                 scene = None, reset_with = None, started = False\<rparr>"
    "g_session (new_Session p s) = Some \<lparr>session_id = n, params = p, session_device = device p,
                 scene = None, reset_with = None, started = False\<rparr>"
    by (simp_all add: new_Session_def emit_def p_def n_def s1_def)
  have sc: "create_scene api goxel (new_Session (g_session_params s1) s1) w h
      = create_scene api goxel (new_Session p s) w h"
    using create_scene_device [OF sess, of api goxel w h] by (simp add: s1_def p_def)
  have step: "cycles_render api goxel (r0, r1, w, h) s =
      Option.bind (rebuild api goxel (get_render_key api goxel) w h s1)
        (\<lambda>s. if g_session s = None then Some s
             else Option.bind (session_draw (g_buffer_params s) s) session_get_status)"
    using key
    by (simp add: cycles_render_def buffer_update_eq emit_def s1_def Let_def)
  show ?thesis
    unfolding step rebuild_eq sc
    by (cases "create_scene api goxel (new_Session p s) w h")
      (simp_all add: s1_def session_draw_def session_get_status_def emit_def p_def n_def)
qed

lemma cycles_render_keeps:
  assumes "cycles_render api goxel r s = Some s'"
  shows "g_session_params s' = g_session_params s \<and> last_key s' = get_render_key api goxel"
proof -
  obtain r0 r1 w h where r: "r = (r0, r1, w, h)" by (cases r) auto
  show ?thesis
  proof (cases "get_render_key api goxel = last_key s")
    case True
    from cycles_render_same_key [OF True, of r0 r1 w h] assms r True show ?thesis by auto
  next
    case False
    from cycles_render_new_key [OF False, of r0 r1 w h] assms r show ?thesis
      by (auto split: option.splits)
  qed
qed

lemma render_frames_keeps:
  "render_frames api frames s = Some s' \<Longrightarrow> g_session_params s' = g_session_params s"
proof (induction frames arbitrary: s)
  case Nil
  then show ?case by simp
next
  case (Cons f frames)
  obtain goxel r where f: "f = (goxel, r)" by (cases f)
  from Cons.prems f obtain s1 where s1: "cycles_render api goxel r s = Some s1"
    and rest: "render_frames api frames s1 = Some s'"
    by (auto split: option.splits)
  from Cons.IH [OF rest] cycles_render_keeps [OF s1] show ?case by simp
qed

lemma cycles_render_ids:
  assumes "cycles_render api goxel r s = Some s'"
    and "case g_session s of None \<Rightarrow> True | Some ss \<Rightarrow> session_id ss < sessions_made s"
  shows "case g_session s' of None \<Rightarrow> True | Some ss \<Rightarrow> session_id ss < sessions_made s'"
proof -
  obtain r0 r1 w h where r: "r = (r0, r1, w, h)" by (cases r) auto
  show ?thesis
  proof (cases "get_render_key api goxel = last_key s")
    case True
    from cycles_render_same_key [OF True, of r0 r1 w h] assms r show ?thesis
      by (auto split: option.splits)
  next
    case False
    from cycles_render_new_key [OF False, of r0 r1 w h] assms r show ?thesis
      by (auto split: option.splits)
  qed
qed

lemma render_frames_ids:
  "render_frames api frames s = Some s' \<Longrightarrow>
   (case g_session s of None \<Rightarrow> True | Some ss \<Rightarrow> session_id ss < sessions_made s) \<Longrightarrow>
   (case g_session s' of None \<Rightarrow> True | Some ss \<Rightarrow> session_id ss < sessions_made s')"
proof (induction frames arbitrary: s)
  case Nil
  then show ?case by auto
next
  case (Cons f frames)
  obtain goxel r where f: "f = (goxel, r)" by (cases f)
  from Cons.prems f obtain s1 where s1: "cycles_render api goxel r s = Some s1"
    and rest: "render_frames api frames s1 = Some s'"
    by (auto split: option.splits)
  from Cons.IH [OF rest cycles_render_ids [OF s1 Cons.prems(2)]] show ?case .
qed

text \<open>
  Claim C3. A call of \<^verbatim>\<open>cycles_render\<close> whose key equals the stored key leaves the
  session, the stored key and the number of sessions constructed as they are; the only
  calls it makes after the OpenGL set-up are the draw and the status query on the
  existing session (none when there is no session). After any call that returned, a
  second call with an editor state of the same key, at whatever viewport, leaves the
  session as the first call left it.
\<close>

theorem cycles_render_unchanged_key:
  fixes s :: "'f::{zero,one,uminus,times} globals"
  shows "(get_render_key api goxel = last_key s \<longrightarrow>
      (\<exists>s'. cycles_render api goxel (r0, r1, w, h) s = Some s'
         \<and> g_session s' = g_session s \<and> last_key s' = last_key s
         \<and> sessions_made s' = sessions_made s
         \<and> trace s' = trace s @ gl_setup (r0, r1, w, h) (viewport_buffer w h)
              @ (case g_session s of
                   None \<Rightarrow> []
                 | Some ss \<Rightarrow> [EvSessionDraw (session_id ss) (viewport_buffer w h),
                               EvGetStatus (session_id ss)])))
   \<and> (\<forall>s1. cycles_render api goxel (r0, r1, w, h) s = Some s1
          \<and> get_render_key api goxel2 = get_render_key api goxel \<longrightarrow>
        (\<exists>s2. cycles_render api goxel2 (q0, q1, w2, h2) s1 = Some s2
           \<and> g_session s2 = g_session s1 \<and> last_key s2 = last_key s1
           \<and> sessions_made s2 = sessions_made s1))"
proof (intro conjI impI allI)
  assume "get_render_key api goxel = last_key s"
  from cycles_render_same_key [OF this, of r0 r1 w h]
  show "\<exists>s'. cycles_render api goxel (r0, r1, w, h) s = Some s'
         \<and> g_session s' = g_session s \<and> last_key s' = last_key s
         \<and> sessions_made s' = sessions_made s
         \<and> trace s' = trace s @ gl_setup (r0, r1, w, h) (viewport_buffer w h)
              @ (case g_session s of
                   None \<Rightarrow> []
                 | Some ss \<Rightarrow> [EvSessionDraw (session_id ss) (viewport_buffer w h),
                               EvGetStatus (session_id ss)])"
    by (simp add: draw_events_def)
next
  fix s1 assume a: "cycles_render api goxel (r0, r1, w, h) s = Some s1
          \<and> get_render_key api goxel2 = get_render_key api goxel"
  then have "cycles_render api goxel (r0, r1, w, h) s = Some s1" by simp
  from cycles_render_keeps [OF this] a have "get_render_key api goxel2 = last_key s1" by simp
  from cycles_render_same_key [OF this, of q0 q1 w2 h2]
  show "\<exists>s2. cycles_render api goxel2 (q0, q1, w2, h2) s1 = Some s2
           \<and> g_session s2 = g_session s1 \<and> last_key s2 = last_key s1
           \<and> sessions_made s2 = sessions_made s1"
    by simp
qed

text \<open>The first frame builds the session 0; the second, with the same inputs, only draws.\<close>

theorem cycles_render_unchanged_key_witness:
  "\<exists>s1 s2. cycles_render toy_api (toy_editor toy_volume toy_identity) (0, 0, 800, 600) toy_ready = Some s1
     \<and> cycles_render toy_api (toy_editor toy_volume toy_identity) (0, 0, 800, 600) s1 = Some s2
     \<and> g_session s2 = g_session s1 \<and> last_key s2 = 15 \<and> sessions_made s2 = 1
     \<and> trace s2 = trace s1 @ gl_setup (0, 0, 800, 600) (viewport_buffer 800 600)
          @ [EvSessionDraw 0 (viewport_buffer 800 600), EvGetStatus 0]"
proof -
  let ?g = "toy_editor toy_volume toy_identity"
  have "cycles_render toy_api ?g (0, 0, 800, 600) toy_ready \<noteq> None" by code_simp
  then obtain s1 where s1: "cycles_render toy_api ?g (0, 0, 800, 600) toy_ready = Some s1"
    by blast
  have "map_option last_key (cycles_render toy_api ?g (0, 0, 800, 600) toy_ready) = Some 15"
    and "map_option sessions_made (cycles_render toy_api ?g (0, 0, 800, 600) toy_ready) = Some 1"
    and "map_option (map_option session_id) (map_option g_session
           (cycles_render toy_api ?g (0, 0, 800, 600) toy_ready)) = Some (Some 0)"
    by code_simp+
  with s1 obtain ss where f: "last_key s1 = 15" "sessions_made s1 = 1"
    "g_session s1 = Some ss" "session_id ss = 0"
    by auto
  have k: "get_render_key toy_api ?g = 15" by code_simp
  from cycles_render_unchanged_key [of toy_api ?g s1 0 0 800 600 ?g 0 0 800 600] k f
  obtain s2 where s2: "cycles_render toy_api ?g (0, 0, 800, 600) s1 = Some s2"
    and "g_session s2 = g_session s1" "last_key s2 = last_key s1"
    "sessions_made s2 = sessions_made s1"
    "trace s2 = trace s1 @ gl_setup (0, 0, 800, 600) (viewport_buffer 800 600)
          @ [EvSessionDraw 0 (viewport_buffer 800 600), EvGetStatus 0]"
    by auto
  with s1 f show ?thesis by auto
qed

text \<open>
  Claim C4. In a state reached from \<^verbatim>\<open>cycles_init\<close> by any number of frames, a call of
  \<^verbatim>\<open>cycles_render\<close> whose key differs from the stored key makes, after the OpenGL
  set-up, exactly these calls in this order: the deletion of the current session (when
  there is one), the construction of the new session with the session parameters of
  \<^verbatim>\<open>cycles_init\<close> (progressive, start resolution 64, 20 samples), the construction of
  the scene at the width and height of the viewport, the reset with the viewport's
  buffer parameters and 20 samples, the start, and then the draw and the status query
  on the new session. The session deleted was constructed before (its number is below
  that of the new one), the new session holds that scene, and the stored key is the new
  key. (The vertex buffer of every block is assumed to hold what the tessellation
  announces.)
\<close>

theorem cycles_render_rebuild_order:
  fixes s :: "'f::{zero,one,uminus,times} globals"
  assumes reach: "render_frames api frames (cycles_init devices default_info (initial_globals bp0 sp0)) = Some s"
    and key: "get_render_key api goxel \<noteq> last_key s"
    and ok: "\<forall>bp\<in>set (mesh_iter_blocks api (render_mesh goxel)). buffer_ok api (render_mesh goxel) bp"
  shows "\<exists>sc s'. cycles_render api goxel (r0, r1, w, h) s = Some s'
     \<and> progressive (g_session_params s) \<and> start_resolution (g_session_params s) = 64
     \<and> samples (g_session_params s) = 20
     \<and> (case g_session s of None \<Rightarrow> True | Some old \<Rightarrow> session_id old < sessions_made s)
     \<and> trace s' = trace s @ gl_setup (r0, r1, w, h) (viewport_buffer w h)
          @ (case g_session s of None \<Rightarrow> [] | Some old \<Rightarrow> [EvSessionDelete (session_id old)])
          @ [EvSessionNew (sessions_made s) (g_session_params s),
             EvCreateScene w h,
             EvSessionReset (sessions_made s) (viewport_buffer w h) 20,
             EvSessionStart (sessions_made s),
             EvSessionDraw (sessions_made s) (viewport_buffer w h),
             EvGetStatus (sessions_made s)]
     \<and> g_session s' = Some \<lparr>session_id = sessions_made s, params = g_session_params s,
            session_device = device (g_session_params s), scene = Some sc,
            reset_with = Some (viewport_buffer w h, 20), started = True\<rparr>
     \<and> cam_width (scene_camera sc) = w \<and> cam_height (scene_camera sc) = h
     \<and> cam_full_width (scene_camera sc) = w \<and> cam_full_height (scene_camera sc) = h
     \<and> last_key s' = get_render_key api goxel"
proof -
  let ?p = "g_session_params s"
  from render_frames_keeps [OF reach]
  have p: "progressive ?p" "start_resolution ?p = 64" "samples ?p = 20"
    using cycles_init_params [of devices default_info "initial_globals bp0 sp0 :: 'f globals"]
    by simp_all
  have "g_session (new_Session ?p s) = Some \<lparr>session_id = sessions_made s, params = ?p,
      session_device = device ?p, scene = None, reset_with = None, started = False\<rparr>"
    by (simp add: new_Session_def emit_def)
  from create_scene_total [OF this ok, of w h]
  obtain sc where sc: "create_scene api goxel (new_Session ?p s) w h = Some sc"
    by blast
  from create_scene_Some [OF sc]
  have cam: "cam_width (scene_camera sc) = w" "cam_height (scene_camera sc) = h"
      "cam_full_width (scene_camera sc) = w" "cam_full_height (scene_camera sc) = h"
    by simp_all
  have "g_session (cycles_init devices default_info (initial_globals bp0 sp0 :: 'f globals)) = None"
    by (simp add: cycles_init_rest initial_globals_def)
  with render_frames_ids [OF reach]
  have ids: "case g_session s of None \<Rightarrow> True | Some old \<Rightarrow> session_id old < sessions_made s"
    by simp
  from cycles_render_new_key [OF key, of r0 r1 w h] sc p cam ids show ?thesis
    by (simp add: delete_events_def)
qed

text \<open>After a first frame at 800 by 600, a frame with a moved camera at 1024 by 768.\<close>

theorem cycles_render_rebuild_order_witness:
  "\<exists>s s'. render_frames toy_api [(toy_editor toy_volume toy_identity, (0, 0, 800, 600))] toy_ready
        = Some s
     \<and> cycles_render toy_api (toy_editor toy_volume (toy_itranslate toy_identity 0 0 5))
          (0, 0, 1024, 768) s = Some s'
     \<and> trace s' = trace s @ gl_setup (0, 0, 1024, 768) (viewport_buffer 1024 768)
          @ [EvSessionDelete 0,
             EvSessionNew 1 \<lparr>progressive = True, start_resolution = 64, device = toy_cpu,
                              samples = 20\<rparr>,
             EvCreateScene 1024 768,
             EvSessionReset 1 (viewport_buffer 1024 768) 20,
             EvSessionStart 1,
             EvSessionDraw 1 (viewport_buffer 1024 768),
             EvGetStatus 1]"
proof -
  let ?g = "toy_editor toy_volume toy_identity"
  let ?g' = "toy_editor toy_volume (toy_itranslate toy_identity 0 0 5)"
  let ?run = "render_frames toy_api [(?g, (0, 0, 800, 600))] toy_ready"
  have "?run \<noteq> None" by code_simp
  then obtain s where s: "?run = Some s" by blast
  have "map_option last_key ?run = Some 15"
    and "map_option sessions_made ?run = Some 1"
    and "map_option (map_option session_id) (map_option g_session ?run) = Some (Some 0)"
    and "map_option g_session_params ?run = Some \<lparr>progressive = True, start_resolution = 64,
           device = toy_cpu, samples = 20\<rparr>"
    by code_simp+
  with s obtain ss where f: "last_key s = 15" "sessions_made s = 1"
    "g_session s = Some ss" "session_id ss = 0"
    "g_session_params s = \<lparr>progressive = True, start_resolution = 64,
           device = toy_cpu, samples = 20\<rparr>"
    by auto
  have "get_render_key toy_api ?g' = 20" by code_simp
  with f have key: "get_render_key toy_api ?g' \<noteq> last_key s" by simp
  have ok: "\<forall>bp\<in>set (mesh_iter_blocks toy_api (render_mesh ?g')). buffer_ok toy_api (render_mesh ?g') bp"
    by (rule toy_ok) simp
  from cycles_render_rebuild_order [OF s [unfolded toy_ready_def toy_start_def] key ok, of 0 0 1024 768]
    s f
  show ?thesis by auto
qed

text \<open>
  Claim C5, as the code has it. On the first call of \<^verbatim>\<open>cycles_render\<close> after
  \<^verbatim>\<open>cycles_init\<close>, a scene is built and the session 0 started when the computed key
  differs from 0, the initial value of the stored key; when the key is 0, no session is
  constructed and no call but the OpenGL set-up is made.
\<close>

theorem cycles_render_first_frame:
  fixes api :: "('m, 'f::{zero,one,uminus,times}) goxel_api"
    and devices default_info bp0 sp0
  defines "s0 \<equiv> cycles_init devices default_info (initial_globals bp0 sp0)"
  assumes ok: "\<forall>bp\<in>set (mesh_iter_blocks api (render_mesh goxel)). buffer_ok api (render_mesh goxel) bp"
  shows "(get_render_key api goxel \<noteq> 0 \<longrightarrow>
       (\<exists>sc s'. cycles_render api goxel (r0, r1, w, h) s0 = Some s'
          \<and> g_session s' = Some \<lparr>session_id = 0, params = g_session_params s0,
               session_device = device (g_session_params s0), scene = Some sc,
               reset_with = Some (viewport_buffer w h, 20), started = True\<rparr>
          \<and> last_key s' = get_render_key api goxel
          \<and> trace s' = gl_setup (r0, r1, w, h) (viewport_buffer w h)
               @ [EvSessionNew 0 (g_session_params s0), EvCreateScene w h,
                  EvSessionReset 0 (viewport_buffer w h) 20, EvSessionStart 0,
                  EvSessionDraw 0 (viewport_buffer w h), EvGetStatus 0]))
    \<and> (get_render_key api goxel = 0 \<longrightarrow>
       (\<exists>s'. cycles_render api goxel (r0, r1, w, h) s0 = Some s'
          \<and> g_session s' = None \<and> last_key s' = 0 \<and> sessions_made s' = 0
          \<and> trace s' = gl_setup (r0, r1, w, h) (viewport_buffer w h)))"
proof -
  let ?p = "g_session_params s0"
  have init: "g_session s0 = None" "last_key s0 = 0" "trace s0 = []" "sessions_made s0 = 0"
    "samples ?p = 20"
    by (simp_all add: s0_def cycles_init_def initial_globals_def)
  have built: "\<exists>sc s'. cycles_render api goxel (r0, r1, w, h) s0 = Some s'
          \<and> g_session s' = Some \<lparr>session_id = 0, params = ?p,
               session_device = device ?p, scene = Some sc,
               reset_with = Some (viewport_buffer w h, 20), started = True\<rparr>
          \<and> last_key s' = get_render_key api goxel
          \<and> trace s' = gl_setup (r0, r1, w, h) (viewport_buffer w h)
               @ [EvSessionNew 0 ?p, EvCreateScene w h,
                  EvSessionReset 0 (viewport_buffer w h) 20, EvSessionStart 0,
                  EvSessionDraw 0 (viewport_buffer w h), EvGetStatus 0]"
    if key: "get_render_key api goxel \<noteq> 0"
  proof -
    from key init have k: "get_render_key api goxel \<noteq> last_key s0" by simp
    have "g_session (new_Session ?p s0) = Some \<lparr>session_id = sessions_made s0, params = ?p,
        session_device = device ?p, scene = None, reset_with = None, started = False\<rparr>"
      by (simp add: new_Session_def emit_def)
    from create_scene_total [OF this ok, of w h]
    obtain sc where sc: "create_scene api goxel (new_Session ?p s0) w h = Some sc"
      by blast
    from cycles_render_new_key [OF k, of r0 r1 w h] sc init show ?thesis
      by (simp add: delete_events_def)
  qed
  have idle: "\<exists>s'. cycles_render api goxel (r0, r1, w, h) s0 = Some s'
          \<and> g_session s' = None \<and> last_key s' = 0 \<and> sessions_made s' = 0
          \<and> trace s' = gl_setup (r0, r1, w, h) (viewport_buffer w h)"
    if key: "get_render_key api goxel = 0"
  proof -
    from key init have k: "get_render_key api goxel = last_key s0" by simp
    from cycles_render_same_key [OF k, of r0 r1 w h] init show ?thesis
      by (simp add: draw_events_def)
  qed
  from built idle show ?thesis by blast
qed

text \<open>The two-block volume with the content hash 7 (key 15) and with the content hash -8 (key 0).\<close>

theorem cycles_render_first_frame_witness:
  "(\<exists>s'. cycles_render toy_api (toy_editor toy_volume toy_identity) (0, 0, 800, 600)
            (cycles_init [toy_cuda, toy_cpu] toy_default_device toy_start) = Some s'
        \<and> map_option session_id (g_session s') = Some 0
        \<and> map_option started (g_session s') = Some True
        \<and> last_key s' = 15
        \<and> trace s' = gl_setup (0, 0, 800, 600) (viewport_buffer 800 600)
               @ [EvSessionNew 0 \<lparr>progressive = True, start_resolution = 64, device = toy_cpu,
                                   samples = 20\<rparr>,
                  EvCreateScene 800 600,
                  EvSessionReset 0 (viewport_buffer 800 600) 20, EvSessionStart 0,
                  EvSessionDraw 0 (viewport_buffer 800 600), EvGetStatus 0])
   \<and> (\<exists>s'. cycles_render toy_api (toy_editor (toy_volume\<lparr>tm_key := - 8\<rparr>) toy_identity)
            (0, 0, 800, 600)
            (cycles_init [toy_cuda, toy_cpu] toy_default_device toy_start) = Some s'
        \<and> g_session s' = None
        \<and> trace s' = gl_setup (0, 0, 800, 600) (viewport_buffer 800 600))"
proof -
  let ?g = "toy_editor toy_volume toy_identity"
  let ?gz = "toy_editor (toy_volume\<lparr>tm_key := - 8\<rparr>) toy_identity"
  have p: "g_session_params (cycles_init [toy_cuda, toy_cpu] toy_default_device toy_start :: int globals)
      = \<lparr>progressive = True, start_resolution = 64, device = toy_cpu, samples = 20\<rparr>"
    by code_simp
  have k: "get_render_key toy_api ?g \<noteq> 0" "get_render_key toy_api ?g = 15" by code_simp+
  have kz: "get_render_key toy_api ?gz = 0" by code_simp
  have ok: "\<forall>bp\<in>set (mesh_iter_blocks toy_api (render_mesh ?g)). buffer_ok toy_api (render_mesh ?g) bp"
    by (rule toy_ok) simp
  have okz: "\<forall>bp\<in>set (mesh_iter_blocks toy_api (render_mesh ?gz)). buffer_ok toy_api (render_mesh ?gz) bp"
    by (rule toy_ok) simp
  from cycles_render_first_frame [OF ok, of 0 0 800 600 "[toy_cuda, toy_cpu]" toy_default_device
      "\<lparr>width = 0, height = 0, full_width = 0, full_height = 0\<rparr>"
      "\<lparr>progressive = False, start_resolution = 0, device = toy_default_device, samples = 0\<rparr>"] k p
  have a: "\<exists>s'. cycles_render toy_api ?g (0, 0, 800, 600)
            (cycles_init [toy_cuda, toy_cpu] toy_default_device toy_start) = Some s'
        \<and> map_option session_id (g_session s') = Some 0
        \<and> map_option started (g_session s') = Some True
        \<and> last_key s' = 15
        \<and> trace s' = gl_setup (0, 0, 800, 600) (viewport_buffer 800 600)
               @ [EvSessionNew 0 \<lparr>progressive = True, start_resolution = 64, device = toy_cpu,
                                   samples = 20\<rparr>,
                  EvCreateScene 800 600,
                  EvSessionReset 0 (viewport_buffer 800 600) 20, EvSessionStart 0,
                  EvSessionDraw 0 (viewport_buffer 800 600), EvGetStatus 0]"
    by (auto simp: toy_start_def)
  from cycles_render_first_frame [OF okz, of 0 0 800 600 "[toy_cuda, toy_cpu]" toy_default_device
      "\<lparr>width = 0, height = 0, full_width = 0, full_height = 0\<rparr>"
      "\<lparr>progressive = False, start_resolution = 0, device = toy_default_device, samples = 0\<rparr>"] kz
  have b: "\<exists>s'. cycles_render toy_api ?gz (0, 0, 800, 600)
            (cycles_init [toy_cuda, toy_cpu] toy_default_device toy_start) = Some s'
        \<and> g_session s' = None
        \<and> trace s' = gl_setup (0, 0, 800, 600) (viewport_buffer 800 600)"
    by (auto simp: toy_start_def)
  from a b show ?thesis by blast
qed

text \<open>
  Claim C5 as it is written fails: for the volume whose content hash is \<open>-8\<close> the key is
  0, and the first frame leaves the program without a session.
\<close>

theorem cycles_render_first_frame_counterexample:
  "get_render_key toy_api (toy_editor (toy_volume\<lparr>tm_key := - 8\<rparr>) toy_identity) = 0
   \<and> cycles_render toy_api (toy_editor (toy_volume\<lparr>tm_key := - 8\<rparr>) toy_identity)
        (0, 0, 800, 600)
        (cycles_init [toy_cuda, toy_cpu] toy_default_device toy_start)
     = Some \<lparr>g_session = None,
             g_buffer_params = \<lparr>width = 800, height = 600, full_width = 800, full_height = 600\<rparr>,
             g_session_params = \<lparr>progressive = True, start_resolution = 64, device = toy_cpu,
                                  samples = 20\<rparr>,
             last_key = 0, sessions_made = 0,
             trace = [EvGL (GlViewport 0 0 800 600), EvGL (GlMatrixMode GL_PROJECTION),
                      EvGL GlLoadIdentity, EvGL (GlOrtho 0 800 0 600 (- 1) 1),
                      EvGL (GlMatrixMode GL_MODELVIEW), EvGL GlLoadIdentity,
                      EvGL (GlUseProgram 0)]\<rparr>"
  by code_simp

text \<open>
  Claim C6 does not hold of the code. After a call that built a session at the viewport
  \<open>w1\<close> by \<open>h1\<close>, a call with the same editor state at any other viewport \<open>w2\<close> by \<open>h2\<close>
  rebuilds nothing: the session is the same object, still reset with the buffer
  parameters of \<open>w1\<close> by \<open>h1\<close> and holding the scene whose camera is \<open>w1\<close> by \<open>h1\<close>, while
  the global buffer parameters are \<open>w2\<close> by \<open>h2\<close> and the draw is made with them.
\<close>

theorem cycles_render_resize_no_rebuild:
  fixes s :: "'f::{zero,one,uminus,times} globals"
  assumes first: "cycles_render api goxel (a0, a1, w1, h1) s = Some s1"
    and built: "get_render_key api goxel \<noteq> last_key s"
  shows "\<exists>ss sc s2. g_session s1 = Some ss
     \<and> reset_with ss = Some (viewport_buffer w1 h1, samples (g_session_params s))
     \<and> scene ss = Some sc
     \<and> cam_width (scene_camera sc) = w1 \<and> cam_height (scene_camera sc) = h1
     \<and> cycles_render api goxel (b0, b1, w2, h2) s1 = Some s2
     \<and> g_session s2 = Some ss
     \<and> sessions_made s2 = sessions_made s1
     \<and> g_buffer_params s2 = viewport_buffer w2 h2
     \<and> trace s2 = trace s1 @ gl_setup (b0, b1, w2, h2) (viewport_buffer w2 h2)
          @ [EvSessionDraw (session_id ss) (viewport_buffer w2 h2), EvGetStatus (session_id ss)]"
proof -
  let ?p = "g_session_params s"
  from cycles_render_new_key [OF built, of a0 a1 w1 h1] first
  obtain sc where sc: "create_scene api goxel (new_Session ?p s) w1 h1 = Some sc"
    and s1: "g_session s1 = Some \<lparr>session_id = sessions_made s, params = ?p,
                 session_device = device ?p,
                 scene = Some sc, reset_with = Some (viewport_buffer w1 h1, samples ?p),
                 started = True\<rparr>"
    by (auto split: option.splits)
  have cam: "cam_width (scene_camera sc) = w1 \<and> cam_height (scene_camera sc) = h1"
    using create_scene_Some [OF sc] by simp
  from cycles_render_keeps [OF first] have "get_render_key api goxel = last_key s1" by simp
  from cycles_render_same_key [OF this, of b0 b1 w2 h2] s1 cam show ?thesis
    by (simp add: draw_events_def)
qed

text \<open>From 800 by 600 to 1024 by 768 with the volume and the camera unchanged.\<close>

theorem cycles_render_resize_no_rebuild_witness:
  "\<exists>s1 s2 ss sc. cycles_render toy_api (toy_editor toy_volume toy_identity) (0, 0, 800, 600) toy_ready = Some s1
     \<and> cycles_render toy_api (toy_editor toy_volume toy_identity) (0, 0, 1024, 768) s1 = Some s2
     \<and> g_session s2 = Some ss \<and> g_session s1 = Some ss
     \<and> reset_with ss = Some (\<lparr>width = 800, height = 600, full_width = 800, full_height = 600\<rparr>, 20)
     \<and> scene ss = Some sc
     \<and> cam_width (scene_camera sc) = 800 \<and> cam_height (scene_camera sc) = 600
     \<and> g_buffer_params s2 = \<lparr>width = 1024, height = 768, full_width = 1024, full_height = 768\<rparr>
     \<and> trace s2 = trace s1 @ gl_setup (0, 0, 1024, 768) (viewport_buffer 1024 768)
          @ [EvSessionDraw 0 \<lparr>width = 1024, height = 768, full_width = 1024, full_height = 768\<rparr>,
             EvGetStatus 0]"
proof -
  let ?g = "toy_editor toy_volume toy_identity"
  have "cycles_render toy_api ?g (0, 0, 800, 600) toy_ready \<noteq> None" by code_simp
  then obtain s1 where s1: "cycles_render toy_api ?g (0, 0, 800, 600) toy_ready = Some s1"
    by blast
  have built: "get_render_key toy_api ?g \<noteq> last_key toy_ready" by code_simp
  have "map_option (map_option session_id) (map_option g_session
           (cycles_render toy_api ?g (0, 0, 800, 600) toy_ready)) = Some (Some 0)"
    by code_simp
  with s1 have id: "map_option session_id (g_session s1) = Some 0" by simp
  have smp: "samples (g_session_params toy_ready) = 20" by code_simp
  from cycles_render_resize_no_rebuild [OF s1 built, of 0 0 1024 768] id smp s1
  show ?thesis
    by (auto simp: viewport_buffer_def)
qed

text \<open>
  Claim C10. When there is no session and the computed key equals the stored key, a call
  of \<^verbatim>\<open>cycles_render\<close> returns (no member of the null session is accessed), writes the
  viewport into the buffer parameters, makes the seven OpenGL calls and nothing else (no
  session is constructed, nothing is drawn, no status is queried), and leaves the
  session null.
\<close>

theorem cycles_render_null_session:
  fixes s :: "'f::{zero,one,uminus,times} globals"
  assumes "g_session s = None" and "get_render_key api goxel = last_key s"
  shows "cycles_render api goxel (r0, r1, w, h) s =
      Some (s\<lparr>g_buffer_params := viewport_buffer w h,
               trace := trace s @ map EvGL
                 [GlViewport r0 r1 w h, GlMatrixMode GL_PROJECTION, GlLoadIdentity,
                  GlOrtho 0 w 0 h (- 1) 1, GlMatrixMode GL_MODELVIEW, GlLoadIdentity,
                  GlUseProgram 0]\<rparr>)"
  using cycles_render_same_key [OF assms(2), of r0 r1 w h] assms(1)
  by (simp add: draw_events_def gl_setup_def viewport_buffer_def)

text \<open>The first frame of a volume whose key is 0, the initial stored key.\<close>

theorem cycles_render_null_session_witness:
  "g_session toy_ready = None
   \<and> get_render_key toy_api (toy_editor (toy_volume\<lparr>tm_key := - 8\<rparr>) toy_identity) = last_key toy_ready
   \<and> cycles_render toy_api (toy_editor (toy_volume\<lparr>tm_key := - 8\<rparr>) toy_identity)
        (0, 0, 800, 600) toy_ready
     = Some (toy_ready\<lparr>g_buffer_params := viewport_buffer 800 600,
               trace := map EvGL
                 [GlViewport 0 0 800 600, GlMatrixMode GL_PROJECTION, GlLoadIdentity,
                  GlOrtho 0 800 0 600 (- 1) 1, GlMatrixMode GL_MODELVIEW, GlLoadIdentity,
                  GlUseProgram 0]\<rparr>)"
proof -
  let ?gz = "toy_editor (toy_volume\<lparr>tm_key := - 8\<rparr>) toy_identity"
  have n: "g_session toy_ready = None" by code_simp
  have k: "get_render_key toy_api ?gz = last_key toy_ready" by code_simp
  have t: "trace toy_ready = []" by code_simp
  from cycles_render_null_session [OF n k, of 0 0 800 600] n k t show ?thesis by simp
qed

end
